theory Spec2Isabelle
  imports Main "HOL-Library.Word"
begin

unbundle bit_operations_syntax

section \<open>Bytes and strings\<close>

text \<open>
  A Go \<open>byte\<close> is an unsigned 8-bit value; a Go \<open>string\<close> is a sequence of bytes, written
  here as an Isabelle \<open>string\<close> so that literals stay readable. \<open>string_bytes\<close> is the
  conversion \<open>[]byte(s)\<close>.
\<close>

type_synonym byte = "8 word"

definition string_bytes :: "string \<Rightarrow> byte list" where
  "string_bytes s = map of_char s"

text \<open>
  The builtin \<open>copy(dst, src)\<close>: it overwrites the first \<open>min (len dst) (len src)\<close>
  elements of \<open>dst\<close> and leaves the rest of \<open>dst\<close> as it was.
\<close>

definition copy_bytes :: "byte list \<Rightarrow> byte list \<Rightarrow> byte list" where
  "copy_bytes dst src = take (length dst) src @ drop (length src) dst"

section \<open>encoding/hex\<close>

definition hextable :: string where
  "hextable = ''0123456789abcdef''"

text \<open>
  \<open>hex.EncodeToString\<close>: every byte \<open>v\<close> becomes the two characters
  \<open>hextable[v>>4]\<close> and \<open>hextable[v&0x0f]\<close>.
\<close>

fun hex_EncodeToString :: "byte list \<Rightarrow> string" where
  "hex_EncodeToString [] = []"
| "hex_EncodeToString (v # vs) =
     hextable ! unat (drop_bit 4 v) # hextable ! unat (v AND 0x0f) # hex_EncodeToString vs"

section \<open>encoding/base64, standard alphabet with padding\<close>

definition encodeStd :: string where
  "encodeStd = ''ABCDEFGHIJKLMNOPQRSTUVWXYZabcdefghijklmnopqrstuvwxyz0123456789+/''"

definition sextet :: "32 word \<Rightarrow> nat \<Rightarrow> char" where
  "sextet val sh = encodeStd ! unat (drop_bit sh val AND 0x3F)"

text \<open>
  \<open>base64.StdEncoding.EncodeToString\<close>: three bytes give four characters; a rest of
  two bytes gives three characters and one \<open>=\<close>, a rest of one byte two characters and
  \<open>==\<close>.
\<close>

fun StdEncoding_EncodeToString :: "byte list \<Rightarrow> string" where
  "StdEncoding_EncodeToString (a # b # c # rest) =
     (let val = push_bit 16 (ucast a) OR push_bit 8 (ucast b) OR ucast c
      in sextet val 18 # sextet val 12 # sextet val 6 # sextet val 0 #
         StdEncoding_EncodeToString rest)"
| "StdEncoding_EncodeToString [a, b] =
     (let val = push_bit 16 (ucast a) OR push_bit 8 (ucast b)
      in [sextet val 18, sextet val 12, sextet val 6, CHR ''='']) "
| "StdEncoding_EncodeToString [a] =
     (let val = push_bit 16 (ucast a)
      in [sextet val 18, sextet val 12, CHR ''='', CHR ''=''])"
| "StdEncoding_EncodeToString [] = []"

section \<open>The attestation report (main.go, attestationReport)\<close>

text \<open>
  \<open>attestation.Document\<close> comes from the verifier package: a format tag and a body.
\<close>

record Document =
  Format :: string
  Body :: string

text \<open>
  The errors \<open>attestationReport\<close> returns: each wraps the message of the failing
  call of the go-sev-guest client.
\<close>

datatype report_error = FailedQuoteProvider string | FailedQuote string

text \<open>
  \<open>client.GetQuoteProvider()\<close> either fails or gives a provider; the provider's
  \<open>GetRawQuote\<close> takes the 64 bytes of user data and either fails or returns the raw report.
\<close>

type_synonym quote_provider = "byte list \<Rightarrow> string + byte list"

text \<open>
  \<open>var userData [64]byte; copy(userData[:], certFP)\<close>
\<close>

definition userData_of :: "string \<Rightarrow> byte list" where
  "userData_of certFP = copy_bytes (replicate 64 0) (string_bytes certFP)"

text \<open>
  \<open>attestationReport\<close>. The constants \<open>abi.ReportSize\<close> and \<open>attestation.SevGuestV1\<close>
  belong to the imported packages and are taken as the parameters \<open>ReportSize\<close> and
  \<open>SevGuestV1\<close>; \<open>qp\<close> is the result of \<open>client.GetQuoteProvider()\<close>.
\<close>

definition attestationReport ::
  "nat \<Rightarrow> string \<Rightarrow> string + quote_provider \<Rightarrow> string \<Rightarrow> report_error + Document" where
  "attestationReport ReportSize SevGuestV1 qp certFP =
     (let userData = userData_of certFP in
      case qp of
        Inl err \<Rightarrow> Inl (FailedQuoteProvider err)
      | Inr GetRawQuote \<Rightarrow>
          (case GetRawQuote userData of
             Inl err \<Rightarrow> Inl (FailedQuote err)
           | Inr report \<Rightarrow>
               (let report' = (if length report > ReportSize then take ReportSize report
                               else report)
                in Inr \<lparr>Format = SevGuestV1,
                        Body = StdEncoding_EncodeToString report'\<rparr>)))"

text \<open>
  The start of \<open>main\<close>: the fingerprint of the leaf certificate's DER bytes is its SHA-256
  digest in hexadecimal. \<open>Sum256\<close> stands for \<open>sha256.Sum256\<close>, whose result type is
  \<open>[32]byte\<close>.
\<close>

definition certFPHex :: "(byte list \<Rightarrow> byte list) \<Rightarrow> byte list \<Rightarrow> string" where
  "certFPHex Sum256 raw = hex_EncodeToString (Sum256 raw)"

definition main_attestation ::
  "(byte list \<Rightarrow> byte list) \<Rightarrow> nat \<Rightarrow> string \<Rightarrow> string + quote_provider \<Rightarrow> byte list
     \<Rightarrow> report_error + Document" where
  "main_attestation Sum256 ReportSize SevGuestV1 qp raw =
     attestationReport ReportSize SevGuestV1 qp (certFPHex Sum256 raw)"

section \<open>encoding/base64, URL alphabet without padding\<close>

definition encodeURL :: string where
  "encodeURL = ''ABCDEFGHIJKLMNOPQRSTUVWXYZabcdefghijklmnopqrstuvwxyz0123456789-_''"

text \<open>
  The decoder's table maps a character of the alphabet to its position and every other
  byte to "invalid".
\<close>

fun position_in :: "string \<Rightarrow> char \<Rightarrow> 32 word \<Rightarrow> 32 word option" where
  "position_in [] c i = None"
| "position_in (x # xs) c i = (if x = c then Some i else position_in xs c (i + 1))"

definition decodeMap :: "char \<Rightarrow> 32 word option" where
  "decodeMap c = position_in encodeURL c 0"

text \<open>
  A quantum of four 6-bit values gives three bytes; at the end of the input a quantum of
  three values gives two bytes and one of two values gives one byte (the encoding is not
  strict: left-over bits are dropped).
\<close>

fun quantum_bytes :: "32 word list \<Rightarrow> byte list" where
  "quantum_bytes [a, b, c, d] =
     (let val = push_bit 18 a OR push_bit 12 b OR push_bit 6 c OR d
      in [ucast (drop_bit 16 val), ucast (drop_bit 8 val), ucast val])"
| "quantum_bytes [a, b, c] =
     (let val = push_bit 18 a OR push_bit 12 b OR push_bit 6 c
      in [ucast (drop_bit 16 val), ucast (drop_bit 8 val)])"
| "quantum_bytes [a, b] =
     (let val = push_bit 18 a OR push_bit 12 b
      in [ucast (drop_bit 16 val)])"
| "quantum_bytes dbuf = []"

text \<open>
  \<open>base64.RawURLEncoding.DecodeString\<close>, character by character; \<open>dbuf\<close> holds the values
  of the quantum being read. Carriage return and line feed are skipped, any other byte
  outside the alphabet (the padding character \<open>=\<close> too) is an error, and so is an input that
  ends one character into a quantum. \<open>None\<close> is the decoder's error.
\<close>

fun RawURL_decode :: "string \<Rightarrow> 32 word list \<Rightarrow> byte list option" where
  "RawURL_decode [] dbuf =
     (if dbuf = [] then Some []
      else if length dbuf = 1 then None
      else Some (quantum_bytes dbuf))"
| "RawURL_decode (c # s) dbuf =
     (case decodeMap c of
        Some out \<Rightarrow>
          (if length dbuf = 3
           then map_option ((@) (quantum_bytes (dbuf @ [out]))) (RawURL_decode s [])
           else RawURL_decode s (dbuf @ [out]))
      | None \<Rightarrow>
          (if c = CHR 0x0A \<or> c = CHR 0x0D then RawURL_decode s dbuf else None))"

definition RawURLEncoding_DecodeString :: "string \<Rightarrow> byte list option" where
  "RawURLEncoding_DecodeString s = RawURL_decode s []"

section \<open>The time package, as far as Verify uses it\<close>

text \<open>
  Of a \<open>time.Time\<close> the model keeps the wall-clock reading: seconds since January 1 of
  year 1 (a signed 64-bit count) and nanoseconds within the second. A time made by
  \<open>time.Unix\<close> has no monotonic reading, and \<open>time.Since\<close> of such a time compares
  wall-clock readings.
\<close>

record Time =
  sec :: int
  nsec :: int

definition unixToInternal :: int where
  "unixToInternal = 62135596800"

text \<open>
  \<open>time.Unix(s, 0)\<close> stores \<open>s + unixToInternal\<close> in a signed 64-bit field: the sum
  wraps around for \<open>s\<close> within \<open>unixToInternal\<close> of the largest value.
\<close>

definition time_Unix :: "64 word \<Rightarrow> Time" where
  "time_Unix s = \<lparr>sec = sint (s + 62135596800), nsec = 0\<rparr>"

text \<open>
  \<open>time.Now()\<close>: the parameter is the reading of the wall clock, in nanoseconds since the
  Unix epoch.
\<close>

definition time_Now :: "int \<Rightarrow> Time" where
  "time_Now now = \<lparr>sec = now div 1000000000 + unixToInternal, nsec = now mod 1000000000\<rparr>"

definition minDuration :: int where
  "minDuration = - (2 ^ 63)"

definition maxDuration :: int where
  "maxDuration = 2 ^ 63 - 1"

text \<open>
  \<open>t.Sub(u)\<close> is the duration \<open>t - u\<close> in nanoseconds; a difference that does not fit a
  \<open>Duration\<close> (a signed 64-bit count) gives the smallest or the largest duration.
\<close>

definition time_Sub :: "Time \<Rightarrow> Time \<Rightarrow> int" where
  "time_Sub t u =
     (let d = (sec t - sec u) * 1000000000 + (nsec t - nsec u)
      in if d < minDuration then minDuration
         else if d > maxDuration then maxDuration
         else d)"

definition time_Since :: "int \<Rightarrow> Time \<Rightarrow> int" where
  "time_Since now t = time_Sub (time_Now now) t"

section \<open>encoding/binary and crypto/ed25519\<close>

text \<open>
  \<open>binary.BigEndian.Uint64(b)\<close> reads the first eight bytes of \<open>b\<close> and panics
  (\<open>None\<close>) on a shorter slice.
\<close>

definition BigEndian_Uint64 :: "byte list \<Rightarrow> 64 word option" where
  "BigEndian_Uint64 b =
     (if length b < 8 then None
      else Some (ucast (b ! 7) OR push_bit 8 (ucast (b ! 6)) OR push_bit 16 (ucast (b ! 5)) OR
                 push_bit 24 (ucast (b ! 4)) OR push_bit 32 (ucast (b ! 3)) OR
                 push_bit 40 (ucast (b ! 2)) OR push_bit 48 (ucast (b ! 1)) OR
                 push_bit 56 (ucast (b ! 0))))"

text \<open>
  \<open>ed25519.Verify(publicKey, message, sig)\<close> panics (\<open>None\<close>) when the public key is not
  32 bytes long and reports \<open>false\<close> for a signature that is not 64 bytes long. The
  arithmetic on the curve is the parameter \<open>valid\<close>: whether the 64 bytes are a signature of
  the message under the key.
\<close>

type_synonym signature_check = "byte list \<Rightarrow> byte list \<Rightarrow> byte list \<Rightarrow> bool"

definition PublicKeySize :: nat where
  "PublicKeySize = 32"

definition SignatureSize :: nat where
  "SignatureSize = 64"

definition ed25519_Verify ::
  "signature_check \<Rightarrow> byte list \<Rightarrow> byte list \<Rightarrow> byte list \<Rightarrow> bool option" where
  "ed25519_Verify valid publicKey message sig =
     (if length publicKey \<noteq> PublicKeySize then None
      else Some (length sig = SignatureSize \<and> valid publicKey message sig))"

section \<open>Package key: the API key verifier\<close>

text \<open>
  The size constants \<open>nonceSize\<close>, \<open>timestampSize\<close>, \<open>validitySize\<close>, \<open>signatureSize\<close> and
  \<open>totalSize\<close> are declared in another file of package key. The spec gives the layout of a
  token, \<open>nonce (N bytes) || issuedAt (8 bytes) || validitySeconds (8 bytes) ||
  signature (64 bytes)\<close>, and leaves the size of the nonce open: \<open>nonceSize\<close> is a
  parameter of the model.
\<close>

text \<open>
  Modelled from the spec: the constant \<open>timestampSize\<close> of package key; \<open>issuedAt\<close> is an
  8-byte field.
\<close>

definition timestampSize :: nat where
  "timestampSize = 8"

text \<open>
  Modelled from the spec: the constant \<open>validitySize\<close> of package key; \<open>validitySeconds\<close>
  is an 8-byte field.
\<close>

definition validitySize :: nat where
  "validitySize = 8"

text \<open>
  Modelled from the spec: the constant \<open>signatureSize\<close> of package key; the signature is a
  64-byte Ed25519 signature.
\<close>

definition signatureSize :: nat where
  "signatureSize = 64"

text \<open>
  Modelled from the spec: the constant \<open>totalSize\<close> of package key, the fixed total
  \<open>nonceSize + 8 + 8 + signatureSize\<close>.
\<close>

definition totalSize :: "nat \<Rightarrow> nat" where
  "totalSize nonceSize = nonceSize + timestampSize + validitySize + signatureSize"

text \<open>
  The four error values \<open>Verify\<close> returns; they are declared in another file of package
  key.
\<close>

datatype key_error =
  ErrInvalidKeyFormat | ErrInvalidKeyLength | ErrAPIKeyExpired | ErrInvalidSignature

text \<open>
  What a call of \<open>Verify\<close> does: it returns \<open>nil\<close> (\<open>Return None\<close>), returns an error, or
  panics.
\<close>

datatype outcome = Return "key_error option" | Panic

record Verifier =
  publicKey :: "byte list"

text \<open>
  \<open>NewVerifier\<close> fails exactly when the key text does not decode.
\<close>

datatype decode_error = CorruptInputError

definition NewVerifier :: "string \<Rightarrow> decode_error + Verifier" where
  "NewVerifier pk_text =
     (case RawURLEncoding_DecodeString pk_text of
        None \<Rightarrow> Inl CorruptInputError
      | Some pk \<Rightarrow> Inr \<lparr>publicKey = pk\<rparr>)"

text \<open>
  The slice expression \<open>b[lo:hi]\<close>, used where \<open>lo \<le> hi \<le> len b\<close>.
\<close>

definition slice :: "byte list \<Rightarrow> nat \<Rightarrow> nat \<Rightarrow> byte list" where
  "slice b lo hi = take (hi - lo) (drop lo b)"

text \<open>
  The expiry test of \<open>Verify\<close>:
  \<open>time.Since(time.Unix(timestamp, 0)) > time.Duration(validity)*time.Second\<close>, where
  \<open>timestamp\<close> and \<open>validity\<close> are the two fields converted to \<open>int64\<close>. The conversion
  keeps the 64 bits and reads them as two's complement; the product with
  \<open>time.Second\<close> (1000000000) is a signed 64-bit product and wraps around.
\<close>

definition expired :: "int \<Rightarrow> 64 word \<Rightarrow> 64 word \<Rightarrow> bool" where
  "expired now timestamp validity \<longleftrightarrow>
     time_Since now (time_Unix timestamp) > sint (validity * 1000000000)"

definition Verify ::
  "nat \<Rightarrow> signature_check \<Rightarrow> int \<Rightarrow> Verifier \<Rightarrow> string \<Rightarrow> outcome" where
  "Verify nonceSize valid now v apiKey =
     (case RawURLEncoding_DecodeString apiKey of
        None \<Rightarrow> Return (Some ErrInvalidKeyFormat)
      | Some data \<Rightarrow>
          (if length data \<noteq> totalSize nonceSize then Return (Some ErrInvalidKeyLength)
           else
             (let message = take (nonceSize + timestampSize + validitySize) data;
                  signature = drop (nonceSize + timestampSize + validitySize) data
              in (case BigEndian_Uint64 (slice data nonceSize (nonceSize + timestampSize)) of
                    None \<Rightarrow> Panic
                  | Some timestamp \<Rightarrow>
                      (case BigEndian_Uint64
                              (slice data (nonceSize + timestampSize)
                                 (nonceSize + timestampSize + validitySize)) of
                         None \<Rightarrow> Panic
                       | Some validity \<Rightarrow>
                           (if expired now timestamp validity
                            then Return (Some ErrAPIKeyExpired)
                            else
                              (case ed25519_Verify valid (publicKey v) message signature of
                                 None \<Rightarrow> Panic
                               | Some ok \<Rightarrow>
                                   (if \<not> ok then Return (Some ErrInvalidSignature)
                                    else Return None))))))))"

section \<open>net/http: the response writer\<close>

text \<open>
  \<open>http.Header\<close> maps a header name to its list of values. A response writer holds the
  header map the handler edits, whether the status line has been written, the status, the
  headers as they were when the status was written (the ones that are sent) and the body
  written so far.
\<close>

type_synonym Header = "string \<rightharpoonup> string list"

record ResponseWriter =
  handlerHeader :: Header
  wroteHeader :: bool
  status :: nat
  sentHeader :: Header
  body :: string

record Request =
  Method :: string
  Path :: string

definition new_response :: ResponseWriter where
  "new_response =
     \<lparr>handlerHeader = Map.empty, wroteHeader = False, status = 0, sentHeader = Map.empty,
      body = []\<rparr>"

definition StatusOK :: nat where
  "StatusOK = 200"

definition StatusForbidden :: nat where
  "StatusForbidden = 403"

text \<open>
  \<open>w.Header().Set(k, v)\<close> replaces the values of \<open>k\<close> by the single value \<open>v\<close>;
  \<open>w.Header().Del(k)\<close> removes \<open>k\<close>.
\<close>

definition Header_Set :: "string \<Rightarrow> string \<Rightarrow> ResponseWriter \<Rightarrow> ResponseWriter" where
  "Header_Set k v w = w\<lparr>handlerHeader := (handlerHeader w)(k \<mapsto> [v])\<rparr>"

definition Header_Del :: "string \<Rightarrow> ResponseWriter \<Rightarrow> ResponseWriter" where
  "Header_Del k w = w\<lparr>handlerHeader := (handlerHeader w)(k := None)\<rparr>"

text \<open>
  \<open>w.WriteHeader(code)\<close>: the first call fixes the status and the headers that are sent;
  a later call is superfluous and changes nothing. Changes of the header map after the
  first call do not reach the response.
\<close>

definition WriteHeader :: "nat \<Rightarrow> ResponseWriter \<Rightarrow> ResponseWriter" where
  "WriteHeader code w =
     (if wroteHeader w then w
      else w\<lparr>wroteHeader := True, status := code, sentHeader := handlerHeader w\<rparr>)"

text \<open>
  \<open>w.Write(data)\<close> writes the status 200 first when no status has been written.
\<close>

definition Write :: "string \<Rightarrow> ResponseWriter \<Rightarrow> ResponseWriter" where
  "Write data w =
     (let w' = (if wroteHeader w then w else WriteHeader StatusOK w)
      in w'\<lparr>body := body w' @ data\<rparr>)"

text \<open>
  \<open>http.Error(w, error, code)\<close> sets the headers of a plain-text reply, writes the status and
  prints the message followed by a newline.
\<close>

definition http_Error :: "ResponseWriter \<Rightarrow> string \<Rightarrow> nat \<Rightarrow> ResponseWriter" where
  "http_Error w error code =
     Write (error @ [CHR 0x0A])
       (WriteHeader code
          (Header_Set ''X-Content-Type-Options'' ''nosniff''
             (Header_Set ''Content-Type'' ''text/plain; charset=utf-8''
                (Header_Del ''Content-Length'' w))))"

text \<open>
  \<open>json.NewEncoder(w).Encode(att)\<close> writes the serialized document followed by a newline.
  The serialization of \<open>attestation.Document\<close> is fixed by the declaration of that type in
  the verifier package; it is the parameter \<open>marshal\<close>.
\<close>

definition json_Encode :: "(Document \<Rightarrow> string) \<Rightarrow> Document \<Rightarrow> ResponseWriter \<Rightarrow> ResponseWriter" where
  "json_Encode marshal att w = Write (marshal att @ [CHR 0x0A]) w"

section \<open>The handlers of main\<close>

text \<open>
  \<open>cors\<close> as main.go has it. The \<open>return\<close> in the \<open>OPTIONS\<close> branch ends \<open>cors\<close>, not the
  handler that called it.
\<close>

definition cors_main :: "ResponseWriter \<Rightarrow> Request \<Rightarrow> ResponseWriter" where
  "cors_main w r =
     (let w1 = Header_Set ''Access-Control-Allow-Origin'' ''*'' w;
          w2 = Header_Set ''Access-Control-Allow-Methods'' ''*'' w1;
          w3 = Header_Set ''Access-Control-Allow-Headers'' ''*'' w2
      in if Method r = ''OPTIONS'' then WriteHeader StatusOK w3 else w3)"

text \<open>
  \<open>cors\<close> as the two other variants of the program have it: the three headers are deleted
  before they are set.
\<close>

definition cors :: "ResponseWriter \<Rightarrow> Request \<Rightarrow> ResponseWriter" where
  "cors w r =
     (let d1 = Header_Del ''Access-Control-Allow-Origin'' w;
          d2 = Header_Del ''Access-Control-Allow-Methods'' d1;
          d3 = Header_Del ''Access-Control-Allow-Headers'' d2;
          w1 = Header_Set ''Access-Control-Allow-Origin'' ''*'' d3;
          w2 = Header_Set ''Access-Control-Allow-Methods'' ''*'' w1;
          w3 = Header_Set ''Access-Control-Allow-Headers'' ''*'' w2
      in if Method r = ''OPTIONS'' then WriteHeader StatusOK w3 else w3)"

text \<open>
  The handler of \<open>/.well-known/tinfoil-attestation\<close>, the same in every variant up to the
  \<open>cors\<close> it calls (the parameter \<open>cors_fn\<close>).
\<close>

definition attestation_handler ::
  "(ResponseWriter \<Rightarrow> Request \<Rightarrow> ResponseWriter) \<Rightarrow> (Document \<Rightarrow> string) \<Rightarrow> Document
     \<Rightarrow> ResponseWriter \<Rightarrow> Request \<Rightarrow> ResponseWriter" where
  "attestation_handler cors_fn marshal att w r =
     (let w1 = cors_fn w r;
          w2 = WriteHeader StatusOK w1;
          w3 = Header_Set ''Content-Type'' ''application/json'' w2
      in json_Encode marshal att w3)"

text \<open>
  \<open>strings.Split(s, ",")\<close>: the pieces of \<open>s\<close> between the commas. The result is never
  empty: a string without a comma, the empty string too, gives one piece.
\<close>

fun split_at :: "char \<Rightarrow> string \<Rightarrow> string list" where
  "split_at sep [] = [[]]"
| "split_at sep (c # s) =
     (if c = sep then [] # split_at sep s
      else (case split_at sep s of
              [] \<Rightarrow> [[c]]
            | piece # pieces \<Rightarrow> (c # piece) # pieces))"

definition strings_Split_comma :: "string \<Rightarrow> string list" where
  "strings_Split_comma s = split_at (CHR '','') s"

text \<open>
  The loop over the configured paths: \<open>allowed\<close> becomes true at the first path equal to
  the request's path.
\<close>

fun path_allowed :: "string list \<Rightarrow> string \<Rightarrow> bool" where
  "path_allowed [] p = False"
| "path_allowed (path # paths) p = (if p = path then True else path_allowed paths p)"

text \<open>
  What the handler of \<open>/\<close> does with a request: it replies itself, or it hands the request
  and the response writer to the reverse proxy.
\<close>

datatype handled = Replied ResponseWriter | Proxied ResponseWriter

text \<open>
  The handler of \<open>/\<close> in main.go: it calls \<open>cors\<close> first.
\<close>

definition root_handler_main :: "string list \<Rightarrow> ResponseWriter \<Rightarrow> Request \<Rightarrow> handled" where
  "root_handler_main paths w r =
     (let w1 = cors_main w r
      in if length paths > 0
         then (if \<not> path_allowed paths (Path r)
               then Replied (http_Error w1 ''shim: 403'' StatusForbidden)
               else Proxied w1)
         else Proxied w1)"

text \<open>
  The handler of \<open>/\<close> in the two other variants: the call of \<open>cors\<close> is commented out.
\<close>

definition root_handler :: "string list \<Rightarrow> ResponseWriter \<Rightarrow> Request \<Rightarrow> handled" where
  "root_handler paths w r =
     (if length paths > 0
      then (if \<not> path_allowed paths (Path r)
            then Replied (http_Error w ''shim: 403'' StatusForbidden)
            else Proxied w)
      else Proxied w)"

text \<open>
  The configured paths. main.go and the other variant driven by flags split the value of
  the flag \<open>-p\<close> ("Paths to proxy to the upstream server (all if empty)") at the commas; the
  variant driven by a YAML file takes the list \<open>paths\<close> of the file as it is.
\<close>

definition flag_paths :: "string \<Rightarrow> string list" where
  "flag_paths allowedPaths = strings_Split_comma allowedPaths"

section \<open>Notions used to state the properties\<close>

text \<open>
  The parts of a decoded token, as \<open>Verify\<close> cuts them out.
\<close>

definition token_issuedAt :: "nat \<Rightarrow> byte list \<Rightarrow> 64 word option" where
  "token_issuedAt nonceSize data =
     BigEndian_Uint64 (slice data nonceSize (nonceSize + timestampSize))"

definition token_validity :: "nat \<Rightarrow> byte list \<Rightarrow> 64 word option" where
  "token_validity nonceSize data =
     BigEndian_Uint64
       (slice data (nonceSize + timestampSize) (nonceSize + timestampSize + validitySize))"

definition token_message :: "nat \<Rightarrow> byte list \<Rightarrow> byte list" where
  "token_message nonceSize data = take (nonceSize + timestampSize + validitySize) data"

definition token_signature :: "nat \<Rightarrow> byte list \<Rightarrow> byte list" where
  "token_signature nonceSize data = drop (nonceSize + timestampSize + validitySize) data"

text \<open>
  The expiry rule in the spec's words: both fields are unsigned counts of seconds, the
  elapsed time is \<open>now - issuedAt\<close>, and the token is expired when the elapsed time is
  strictly greater than the validity. The clock \<open>now\<close> is in nanoseconds, so both sides
  are.
\<close>

definition expired_unsigned :: "int \<Rightarrow> 64 word \<Rightarrow> 64 word \<Rightarrow> bool" where
  "expired_unsigned now issuedAt validitySeconds \<longleftrightarrow>
     now - uint issuedAt * 1000000000 > uint validitySeconds * 1000000000"

text \<open>
  A signature check that accepts every signature, for evaluating \<open>Verify\<close> on tokens that
  count as correctly signed.
\<close>

definition accept_all :: signature_check where
  "accept_all pk message sig = True"

text \<open>
  The status and the body of the reply the handler of \<open>/\<close> writes itself; \<open>None\<close> when
  it forwards the request.
\<close>

definition reply_of :: "handled \<Rightarrow> (nat \<times> string) option" where
  "reply_of h = (case h of Replied w \<Rightarrow> Some (status w, body w) | Proxied w \<Rightarrow> None)"

section \<open>The user data bound into the attestation\<close>

lemma high_nibble_less: "unat (drop_bit 4 (v :: byte)) < 16"
proof -
  have "unat v < 256" using unsigned_less [of v, where 'a=nat] by simp
  then show ?thesis by (simp add: drop_bit_eq_div unat_div)
qed

lemma low_nibble_less: "unat ((v :: byte) AND 0x0f) < 16"
proof -
  have "v AND 0x0f = take_bit 4 v"
    by (simp add: take_bit_eq_mask mask_eq_exp_minus_1)
  then show ?thesis
    by (simp add: take_bit_eq_mod unat_mod)
qed

lemma hex_EncodeToString_length: "length (hex_EncodeToString vs) = 2 * length vs"
  by (induction vs) simp_all

lemma hex_EncodeToString_lowercase: "set (hex_EncodeToString vs) \<subseteq> set hextable"
proof (induction vs)
  case Nil
  then show ?case by simp
next
  case (Cons v vs)
  have "length hextable = 16" by (simp add: hextable_def)
  then have "hextable ! unat (drop_bit 4 v) \<in> set hextable"
    and "hextable ! unat (v AND 0x0f) \<in> set hextable"
    using high_nibble_less [of v] low_nibble_less [of v] by simp_all
  with Cons show ?case by simp
qed

lemma userData_of_zero_filled:
  "userData_of certFP = take 64 (string_bytes certFP) @ replicate (64 - length certFP) 0"
  by (simp add: userData_of_def copy_bytes_def string_bytes_def)

text \<open>
  C1. The user data handed to the attestation provider is a buffer of 64 zero bytes with
  the fingerprint text copied in from offset 0. For the fingerprint \<open>main\<close> computes, the
  hexadecimal text of a 32-byte digest of the certificate's DER bytes, the text has 64
  characters, all of them among \<open>0123456789abcdef\<close>, and the buffer is exactly the bytes
  of that text; this buffer is the argument of the provider's \<open>GetRawQuote\<close>. The buffer is
  a function of the certificate bytes alone, so equal certificates give equal buffers.
\<close>

theorem userData_is_hex_fingerprint:
  assumes "length (Sum256 raw) = 32"
  shows "userData_of (certFPHex Sum256 raw) = string_bytes (hex_EncodeToString (Sum256 raw)) \<and>
    userData_of (certFPHex Sum256 raw) =
      take 64 (string_bytes (certFPHex Sum256 raw)) @
      replicate (64 - length (certFPHex Sum256 raw)) 0 \<and>
    length (userData_of (certFPHex Sum256 raw)) = 64 \<and>
    length (hex_EncodeToString (Sum256 raw)) = 64 \<and>
    set (hex_EncodeToString (Sum256 raw)) \<subseteq> set ''0123456789abcdef'' \<and>
    main_attestation Sum256 ReportSize SevGuestV1 (Inr GetRawQuote) raw =
      (case GetRawQuote (string_bytes (hex_EncodeToString (Sum256 raw))) of
         Inl err \<Rightarrow> Inl (FailedQuote err)
       | Inr report \<Rightarrow>
           Inr \<lparr>Format = SevGuestV1,
                Body = StdEncoding_EncodeToString (take ReportSize report)\<rparr>)"
proof -
  have len: "length (hex_EncodeToString (Sum256 raw)) = 64"
    using assms by (simp add: hex_EncodeToString_length)
  have ud: "userData_of (certFPHex Sum256 raw) = string_bytes (hex_EncodeToString (Sum256 raw))"
    using len by (simp add: userData_of_zero_filled certFPHex_def string_bytes_def)
  have size: "length (userData_of (certFPHex Sum256 raw)) = 64"
    using len by (simp add: ud string_bytes_def)
  have lower: "set (hex_EncodeToString (Sum256 raw)) \<subseteq> set ''0123456789abcdef''"
    using hex_EncodeToString_lowercase [of "Sum256 raw"] by (simp only: hextable_def)
  have call: "main_attestation Sum256 ReportSize SevGuestV1 (Inr GetRawQuote) raw =
      (case GetRawQuote (string_bytes (hex_EncodeToString (Sum256 raw))) of
         Inl err \<Rightarrow> Inl (FailedQuote err)
       | Inr report \<Rightarrow>
           Inr \<lparr>Format = SevGuestV1,
                Body = StdEncoding_EncodeToString (take ReportSize report)\<rparr>)"
    using ud by (simp add: main_attestation_def attestationReport_def Let_def split: sum.splits)
  from ud size len lower call userData_of_zero_filled [of "certFPHex Sum256 raw"]
  show ?thesis by blast
qed

theorem userData_is_hex_fingerprint_witness:
  "length ((\<lambda>raw. take 32 (raw @ replicate 32 0)) [0xde, 0xad :: byte]) = 32 \<and>
   userData_of (certFPHex (\<lambda>raw. take 32 (raw @ replicate 32 0)) [0xde, 0xad]) =
     string_bytes ''dead000000000000000000000000000000000000000000000000000000000000''"
proof -
  have h: "length ((\<lambda>raw. take 32 (raw @ replicate 32 0)) [0xde, 0xad :: byte]) = 32"
    by simp
  have "hex_EncodeToString ((\<lambda>raw. take 32 (raw @ replicate 32 0)) [0xde, 0xad :: byte]) =
      ''dead000000000000000000000000000000000000000000000000000000000000''"
    by code_simp
  with userData_is_hex_fingerprint
         [of "\<lambda>raw. take 32 (raw @ replicate 32 0)" "[0xde, 0xad]", OF h] h
  show ?thesis by simp
qed

section \<open>Building the attestation document\<close>

text \<open>
  C8. When the provider returns a raw report, \<open>attestationReport\<close> succeeds with a
  document whose format is the provider's tag and whose body is the base64 text of the
  first \<open>ReportSize\<close> bytes of the report: a prefix of the report of length
  \<open>min (length report) ReportSize\<close>, so a longer report is cut to exactly \<open>ReportSize\<close>
  bytes, a report within the size is taken whole, and nothing is appended.
\<close>

theorem attestationReport_truncates:
  assumes "GetRawQuote (userData_of certFP) = Inr report"
  shows "attestationReport ReportSize SevGuestV1 (Inr GetRawQuote) certFP =
      Inr \<lparr>Format = SevGuestV1,
           Body = StdEncoding_EncodeToString (take ReportSize report)\<rparr> \<and>
    length (take ReportSize report) = min (length report) ReportSize \<and>
    take ReportSize report @ drop ReportSize report = report"
  using assms by (simp add: attestationReport_def Let_def)

theorem attestationReport_truncates_witness:
  "(\<lambda>userData. Inr (userData @ [0, 1])) (userData_of ''ab'') =
      (Inr (userData_of ''ab'' @ [0, 1]) :: string + byte list) \<and>
   attestationReport 3 ''sev'' (Inr (\<lambda>userData. Inr (userData @ [0, 1]))) ''ab'' =
      Inr \<lparr>Format = ''sev'', Body = ''YWIA''\<rparr> \<and>
   attestationReport 66 ''sev'' (Inr (\<lambda>userData. Inr (take 2 userData))) ''ab'' =
      Inr \<lparr>Format = ''sev'', Body = ''YWI=''\<rparr>"
proof -
  have h1: "(\<lambda>userData. Inr (userData @ [0, 1])) (userData_of ''ab'') =
      (Inr (userData_of ''ab'' @ [0, 1]) :: string + byte list)"
    by simp
  have h2: "(\<lambda>userData. Inr (take 2 userData)) (userData_of ''ab'') =
      (Inr (take 2 (userData_of ''ab'')) :: string + byte list)"
    by simp
  have b1: "StdEncoding_EncodeToString (take 3 (userData_of ''ab'' @ [0, 1])) = ''YWIA''"
    by code_simp
  have b2: "StdEncoding_EncodeToString (take 66 (take 2 (userData_of ''ab''))) = ''YWI=''"
    by code_simp
  from attestationReport_truncates
         [of "\<lambda>userData. Inr (userData @ [0, 1])" "''ab''" "userData_of ''ab'' @ [0, 1]" 3
            "''sev''", OF h1]
    attestationReport_truncates
         [of "\<lambda>userData. Inr (take 2 userData)" "''ab''" "take 2 (userData_of ''ab'')" 66
            "''sev''", OF h2]
    h1 b1 b2
  show ?thesis by simp
qed

section \<open>Facts about the expiry test and the decoder\<close>

lemma sint_of_int_fit:
  "- (2 ^ 63) \<le> x \<Longrightarrow> x < 2 ^ 63 \<Longrightarrow> sint (word_of_int x :: 64 word) = x"
  by (simp add: sint_sbintrunc' signed_take_bit_int_eq_self_iff)

lemma sint_plus_const:
  assumes "uint (s :: 64 word) + k < 2 ^ 63" "0 \<le> k"
  shows "sint (s + word_of_int k) = uint s + k"
proof -
  have "s + word_of_int k = word_of_int (uint s + k)" by simp
  moreover have "- (2 ^ 63) \<le> uint s + k"
  proof -
    have "(- (2 ^ 63) :: int) \<le> 0" by simp
    also have "0 \<le> uint s + k" using assms(2) by simp
    finally show ?thesis .
  qed
  ultimately show ?thesis using assms(1) by (simp only: sint_of_int_fit)
qed

lemma sint_times_const:
  assumes "uint (s :: 64 word) * k < 2 ^ 63" "0 \<le> k"
  shows "sint (s * word_of_int k) = uint s * k"
proof -
  have "s * word_of_int k = word_of_int (uint s * k)" by simp
  moreover have "- (2 ^ 63) \<le> uint s * k"
  proof -
    have "(- (2 ^ 63) :: int) \<le> 0" by simp
    also have "0 \<le> uint s * k" using assms(2) by simp
    finally show ?thesis .
  qed
  ultimately show ?thesis using assms(1) by (simp only: sint_of_int_fit)
qed

lemma time_Unix_sec:
  assumes "uint s < 2 ^ 63 - 62135596800"
  shows "time_Unix s = \<lparr>sec = uint s + unixToInternal, nsec = 0\<rparr>"
proof -
  have "sint (s + word_of_int 62135596800) = uint s + 62135596800"
    using assms by (intro sint_plus_const) simp_all
  then show ?thesis by (simp add: time_Unix_def unixToInternal_def)
qed

lemma Duration_seconds:
  assumes "uint v \<le> 9223372036"
  shows "sint (v * 1000000000 :: 64 word) = uint v * 1000000000"
proof -
  have "sint (v * word_of_int 1000000000) = uint v * 1000000000"
    using assms by (intro sint_times_const) simp_all
  then show ?thesis by simp
qed

lemma time_Since_Unix:
  assumes "uint s < 2 ^ 63 - 62135596800"
  shows "time_Since now (time_Unix s) =
    (let d = now - uint s * 1000000000
     in if d < minDuration then minDuration else if d > maxDuration then maxDuration else d)"
proof -
  have "now div 1000000000 * 1000000000 + now mod 1000000000 = now"
    by simp
  then have "(now div 1000000000 + unixToInternal - (uint s + unixToInternal)) * 1000000000
          + (now mod 1000000000 - 0) = now - uint s * 1000000000"
    by (simp add: algebra_simps)
  then show ?thesis
    unfolding time_Since_def time_Sub_def time_Now_def time_Unix_sec [OF assms]
    by (simp only: Time.simps Let_def)
qed

lemma expired_iff_unsigned:
  assumes "uint s < 2 ^ 63 - 62135596800" "uint v \<le> 9223372036"
  shows "expired now s v \<longleftrightarrow> expired_unsigned now s v"
proof -
  define d where "d = now - uint s * 1000000000"
  define w where "w = uint v * 1000000000"
  have w: "0 \<le> w" "w < 9223372036854775807"
    using assms(2) uint_ge_0 [of v] by (simp_all add: w_def)
  have "expired now s v \<longleftrightarrow>
      (if d < - 9223372036854775808 then - 9223372036854775808
       else if d > 9223372036854775807 then 9223372036854775807 else d) > w"
    unfolding expired_def time_Since_Unix [OF assms(1)] Duration_seconds [OF assms(2)]
    by (simp add: Let_def minDuration_def maxDuration_def d_def w_def)
  also have "\<dots> \<longleftrightarrow> d > w"
    using w by auto
  finally show ?thesis by (simp add: d_def w_def expired_unsigned_def)
qed

lemma token_fields_present:
  assumes "length data = totalSize n"
  shows "\<exists>ts vl. token_issuedAt n data = Some ts \<and> token_validity n data = Some vl"
  using assms
  by (simp add: token_issuedAt_def token_validity_def BigEndian_Uint64_def slice_def
      totalSize_def timestampSize_def validitySize_def signatureSize_def)

lemma token_signature_length:
  assumes "length data = totalSize n"
  shows "length (token_signature n data) = SignatureSize"
  using assms
  by (simp add: token_signature_def totalSize_def timestampSize_def validitySize_def
      signatureSize_def SignatureSize_def)

lemma Verify_decoded:
  assumes "RawURLEncoding_DecodeString apiKey = Some data"
    and "length data = totalSize n"
    and "token_issuedAt n data = Some ts"
    and "token_validity n data = Some vl"
  shows "Verify n valid now v apiKey =
    (if expired now ts vl then Return (Some ErrAPIKeyExpired)
     else (case ed25519_Verify valid (publicKey v) (token_message n data)
                  (token_signature n data) of
             None \<Rightarrow> Panic
           | Some ok \<Rightarrow> (if \<not> ok then Return (Some ErrInvalidSignature) else Return None)))"
  using assms
  by (simp add: Verify_def Let_def token_issuedAt_def token_validity_def token_message_def
      token_signature_def)

lemma Verify_live_token:
  assumes "RawURLEncoding_DecodeString apiKey = Some data"
    and "length data = totalSize n"
    and "token_issuedAt n data = Some ts"
    and "token_validity n data = Some vl"
    and "\<not> expired now ts vl"
    and "length (publicKey v) = PublicKeySize"
    and "valid (publicKey v) (token_message n data) (token_signature n data)"
  shows "Verify n valid now v apiKey = Return None"
  using assms token_signature_length [of data n]
  by (simp add: Verify_decoded ed25519_Verify_def)

lemma RawURL_decode_invalid_char:
  assumes "c \<in> set s" "decodeMap c = None" "c \<noteq> CHR 0x0A" "c \<noteq> CHR 0x0D"
  shows "RawURL_decode s dbuf = None"
  using assms(1)
proof (induction s arbitrary: dbuf)
  case Nil
  then show ?case by simp
next
  case (Cons x s)
  show ?case
  proof (cases "x = c")
    case True
    then show ?thesis using assms(2-4) by simp
  next
    case False
    with Cons.prems have "c \<in> set s" by simp
    then have "\<And>d. RawURL_decode s d = None" by (rule Cons.IH)
    then show ?thesis by (simp split: option.splits)
  qed
qed

lemma RawURL_decode_total:
  assumes "\<forall>c\<in>set s. decodeMap c \<noteq> None" "length dbuf < 4"
    "(length dbuf + length s) mod 4 \<noteq> 1"
  shows "RawURL_decode s dbuf \<noteq> None"
  using assms
proof (induction s arbitrary: dbuf)
  case Nil
  then show ?case by auto
next
  case (Cons x s)
  from Cons.prems(1) obtain out where out: "decodeMap x = Some out" by auto
  show ?case
  proof (cases "length dbuf = 3")
    case True
    with Cons.prems(3) have "(length ([] :: 32 word list) + length s) mod 4 \<noteq> 1"
      by (simp add: mod_Suc)
    with Cons.IH [of "[]"] Cons.prems(1) have "RawURL_decode s [] \<noteq> None" by simp
    with True out show ?thesis by simp
  next
    case False
    with Cons.prems(2) have "length (dbuf @ [out]) < 4" by simp
    moreover from Cons.prems(3) have "(length (dbuf @ [out]) + length s) mod 4 \<noteq> 1" by simp
    ultimately have "RawURL_decode s (dbuf @ [out]) \<noteq> None"
      using Cons.IH [of "dbuf @ [out]"] Cons.prems(1) by simp
    with False out show ?thesis by simp
  qed
qed

section \<open>Big-endian fields\<close>

lemma byte_bit_bound: "bit (b :: byte) n \<Longrightarrow> n < 8"
  by (auto dest: bit_imp_le_length)

lemma or_is_add:
  fixes a b :: "64 word"
  assumes "\<And>n. \<not> bit a n \<or> \<not> bit b n"
  shows "a OR b = a + b"
  using disjunctive_add [of a b] assms by simp

lemma shifted_byte:
  fixes b :: byte
  shows "push_bit k (ucast b :: 64 word) = word_of_int (uint b * 2 ^ k)"
proof -
  have "(ucast b :: 64 word) = word_of_int (uint b)" by simp
  then show ?thesis by (simp only: push_bit_eq_mult of_int_mult of_int_power of_int_numeral)
qed

lemma BigEndian_sum:
  fixes b0 b1 b2 b3 b4 b5 b6 b7 :: byte
  shows "(ucast b7 OR push_bit 8 (ucast b6) OR push_bit 16 (ucast b5) OR
          push_bit 24 (ucast b4) OR push_bit 32 (ucast b3) OR
          push_bit 40 (ucast b2) OR push_bit 48 (ucast b1) OR
          push_bit 56 (ucast b0) :: 64 word) =
         ucast b7 + (push_bit 8 (ucast b6) + (push_bit 16 (ucast b5) +
          (push_bit 24 (ucast b4) + (push_bit 32 (ucast b3) +
          (push_bit 40 (ucast b2) + (push_bit 48 (ucast b1) +
          push_bit 56 (ucast b0)))))))"
proof -
  have 1: "push_bit 48 (ucast b1) OR push_bit 56 (ucast b0) =
      (push_bit 48 (ucast b1) + push_bit 56 (ucast b0) :: 64 word)"
    by (rule or_is_add) (auto simp add: bit_push_bit_iff bit_ucast_iff dest!: byte_bit_bound)
  have 2: "push_bit 40 (ucast b2) OR (push_bit 48 (ucast b1) OR push_bit 56 (ucast b0)) =
      (push_bit 40 (ucast b2) + (push_bit 48 (ucast b1) OR push_bit 56 (ucast b0)) :: 64 word)"
    by (rule or_is_add) (auto simp add: bit_or_iff bit_push_bit_iff bit_ucast_iff dest!: byte_bit_bound)
  have 3: "push_bit 32 (ucast b3) OR (push_bit 40 (ucast b2) OR (push_bit 48 (ucast b1) OR
        push_bit 56 (ucast b0))) =
      (push_bit 32 (ucast b3) + (push_bit 40 (ucast b2) OR (push_bit 48 (ucast b1) OR
        push_bit 56 (ucast b0))) :: 64 word)"
    by (rule or_is_add) (auto simp add: bit_or_iff bit_push_bit_iff bit_ucast_iff dest!: byte_bit_bound)
  have 4: "push_bit 24 (ucast b4) OR (push_bit 32 (ucast b3) OR (push_bit 40 (ucast b2) OR
        (push_bit 48 (ucast b1) OR push_bit 56 (ucast b0)))) =
      (push_bit 24 (ucast b4) + (push_bit 32 (ucast b3) OR (push_bit 40 (ucast b2) OR
        (push_bit 48 (ucast b1) OR push_bit 56 (ucast b0)))) :: 64 word)"
    by (rule or_is_add) (auto simp add: bit_or_iff bit_push_bit_iff bit_ucast_iff dest!: byte_bit_bound)
  have 5: "push_bit 16 (ucast b5) OR (push_bit 24 (ucast b4) OR (push_bit 32 (ucast b3) OR
        (push_bit 40 (ucast b2) OR (push_bit 48 (ucast b1) OR push_bit 56 (ucast b0))))) =
      (push_bit 16 (ucast b5) + (push_bit 24 (ucast b4) OR (push_bit 32 (ucast b3) OR
        (push_bit 40 (ucast b2) OR (push_bit 48 (ucast b1) OR push_bit 56 (ucast b0))))) :: 64 word)"
    by (rule or_is_add) (auto simp add: bit_or_iff bit_push_bit_iff bit_ucast_iff dest!: byte_bit_bound)
  have 6: "push_bit 8 (ucast b6) OR (push_bit 16 (ucast b5) OR (push_bit 24 (ucast b4) OR
        (push_bit 32 (ucast b3) OR (push_bit 40 (ucast b2) OR (push_bit 48 (ucast b1) OR
        push_bit 56 (ucast b0)))))) =
      (push_bit 8 (ucast b6) + (push_bit 16 (ucast b5) OR (push_bit 24 (ucast b4) OR
        (push_bit 32 (ucast b3) OR (push_bit 40 (ucast b2) OR (push_bit 48 (ucast b1) OR
        push_bit 56 (ucast b0)))))) :: 64 word)"
    by (rule or_is_add) (auto simp add: bit_or_iff bit_push_bit_iff bit_ucast_iff dest!: byte_bit_bound)
  have 7: "ucast b7 OR (push_bit 8 (ucast b6) OR (push_bit 16 (ucast b5) OR
        (push_bit 24 (ucast b4) OR
        (push_bit 32 (ucast b3) OR (push_bit 40 (ucast b2) OR (push_bit 48 (ucast b1) OR
        push_bit 56 (ucast b0))))))) =
      (ucast b7 + (push_bit 8 (ucast b6) OR (push_bit 16 (ucast b5) OR (push_bit 24 (ucast b4) OR
        (push_bit 32 (ucast b3) OR (push_bit 40 (ucast b2) OR (push_bit 48 (ucast b1) OR
        push_bit 56 (ucast b0))))))) :: 64 word)"
    by (rule or_is_add) (auto simp add: bit_or_iff bit_push_bit_iff bit_ucast_iff dest!: byte_bit_bound)
  show ?thesis
    unfolding 7 unfolding 6 unfolding 5 unfolding 4 unfolding 3 unfolding 2 unfolding 1 ..
qed

lemma byte_range: "0 \<le> uint (b :: byte) \<and> uint b \<le> 255"
  using uint_bounded [of b] by simp

lemma BigEndian_Uint64_unsigned:
  assumes "BigEndian_Uint64 b = Some w"
  shows "uint w = uint (b ! 0) * 2 ^ 56 + uint (b ! 1) * 2 ^ 48 + uint (b ! 2) * 2 ^ 40 +
    uint (b ! 3) * 2 ^ 32 + uint (b ! 4) * 2 ^ 24 + uint (b ! 5) * 2 ^ 16 +
    uint (b ! 6) * 2 ^ 8 + uint (b ! 7)"
proof -
  define s where "s = uint (b ! 0) * 2 ^ 56 + uint (b ! 1) * 2 ^ 48 + uint (b ! 2) * 2 ^ 40 +
    uint (b ! 3) * 2 ^ 32 + uint (b ! 4) * 2 ^ 24 + uint (b ! 5) * 2 ^ 16 +
    uint (b ! 6) * 2 ^ 8 + uint (b ! 7)"
  have "w = ucast (b ! 7) + (push_bit 8 (ucast (b ! 6)) + (push_bit 16 (ucast (b ! 5)) +
          (push_bit 24 (ucast (b ! 4)) + (push_bit 32 (ucast (b ! 3)) +
          (push_bit 40 (ucast (b ! 2)) + (push_bit 48 (ucast (b ! 1)) +
          push_bit 56 (ucast (b ! 0))))))))"
    using assms by (simp add: BigEndian_Uint64_def BigEndian_sum split: if_splits)
  also have "\<dots> = word_of_int s"
    by (simp add: s_def push_bit_eq_mult)
  finally have w: "w = word_of_int s" .
  have "0 \<le> s" "s < 2 ^ 64"
    using byte_range [of "b ! 0"] byte_range [of "b ! 1"] byte_range [of "b ! 2"]
      byte_range [of "b ! 3"] byte_range [of "b ! 4"] byte_range [of "b ! 5"]
      byte_range [of "b ! 6"] byte_range [of "b ! 7"]
    by (simp_all add: s_def)
  then have "uint (word_of_int s :: 64 word) = s"
    by (simp add: uint_word_of_int_eq take_bit_int_eq_self)
  with w show ?thesis by (simp only: s_def)
qed

lemma token_issuedAt_big_endian:
  assumes "length data = totalSize n" "token_issuedAt n data = Some w"
  shows "uint w = uint (data ! n) * 2 ^ 56 + uint (data ! (n + 1)) * 2 ^ 48 +
    uint (data ! (n + 2)) * 2 ^ 40 + uint (data ! (n + 3)) * 2 ^ 32 +
    uint (data ! (n + 4)) * 2 ^ 24 + uint (data ! (n + 5)) * 2 ^ 16 +
    uint (data ! (n + 6)) * 2 ^ 8 + uint (data ! (n + 7))"
  using BigEndian_Uint64_unsigned [OF assms(2) [unfolded token_issuedAt_def]] assms(1)
  by (simp add: slice_def totalSize_def timestampSize_def validitySize_def signatureSize_def)

lemma token_validity_big_endian:
  assumes "length data = totalSize n" "token_validity n data = Some w"
  shows "uint w = uint (data ! (n + 8)) * 2 ^ 56 + uint (data ! (n + 9)) * 2 ^ 48 +
    uint (data ! (n + 10)) * 2 ^ 40 + uint (data ! (n + 11)) * 2 ^ 32 +
    uint (data ! (n + 12)) * 2 ^ 24 + uint (data ! (n + 13)) * 2 ^ 16 +
    uint (data ! (n + 14)) * 2 ^ 8 + uint (data ! (n + 15))"
  using BigEndian_Uint64_unsigned [OF assms(2) [unfolded token_validity_def]] assms(1)
  by (simp add: slice_def totalSize_def timestampSize_def validitySize_def signatureSize_def
      add.commute)

section \<open>Tokens used for the concrete evaluations\<close>

text \<open>
  Each token has a nonce of 16 zero bytes, the two fields and 64 signature bytes of value 7;
  the clock of the evaluations reads 1700000000 seconds after the epoch.
\<close>

lemma decodeMap_values:
  "decodeMap CHR ''A'' = Some 0"
  "decodeMap CHR ''B'' = Some 1"
  "decodeMap CHR ''D'' = Some 3"
  "decodeMap CHR ''E'' = Some 4"
  "decodeMap CHR ''H'' = Some 7"
  "decodeMap CHR ''K'' = Some 10"
  "decodeMap CHR ''P'' = Some 15"
  "decodeMap CHR ''Q'' = Some 16"
  "decodeMap CHR ''U'' = Some 20"
  "decodeMap CHR ''X'' = Some 23"
  "decodeMap CHR ''c'' = Some 28"
  "decodeMap CHR ''f'' = Some 31"
  "decodeMap CHR ''i'' = Some 34"
  "decodeMap CHR ''l'' = Some 37"
  "decodeMap CHR ''w'' = Some 48"
  "decodeMap CHR ''_'' = Some 63"
  by (simp_all add: decodeMap_def encodeURL_def)

lemma token_on_boundary_decodes:
  "RawURLEncoding_DecodeString
     ''AAAAAAAAAAAAAAAAAAAAAAAAAABlU_DEAAAAAAAAADwHBwcHBwcHBwcHBwcHBwcHBwcHBwcHBwcHBwcHBwcHBwcHBwcHBwcHBwcHBwcHBwcHBwcHBwcHBwcHBwcHBwcH'' =
   Some
     [0, 0, 0, 0, 0, 0, 0, 0, 0, 0, 0, 0, 0, 0, 0, 0, 0, 0, 0, 0, 101, 83, 240, 196,
      0, 0, 0, 0, 0, 0, 0, 60, 7, 7, 7, 7, 7, 7, 7, 7, 7, 7, 7, 7, 7, 7, 7, 7,
      7, 7, 7, 7, 7, 7, 7, 7, 7, 7, 7, 7, 7, 7, 7, 7, 7, 7, 7, 7, 7, 7, 7, 7,
      7, 7, 7, 7, 7, 7, 7, 7, 7, 7, 7, 7, 7, 7, 7, 7, 7, 7, 7, 7, 7, 7, 7, 7]"
  by (simp add: RawURLEncoding_DecodeString_def decodeMap_values)

lemma token_on_boundary_fields:
  "length
     ([0, 0, 0, 0, 0, 0, 0, 0, 0, 0, 0, 0, 0, 0, 0, 0, 0, 0, 0, 0, 101, 83, 240, 196,
      0, 0, 0, 0, 0, 0, 0, 60, 7, 7, 7, 7, 7, 7, 7, 7, 7, 7, 7, 7, 7, 7, 7, 7,
      7, 7, 7, 7, 7, 7, 7, 7, 7, 7, 7, 7, 7, 7, 7, 7, 7, 7, 7, 7, 7, 7, 7, 7,
      7, 7, 7, 7, 7, 7, 7, 7, 7, 7, 7, 7, 7, 7, 7, 7, 7, 7, 7, 7, 7, 7, 7, 7] :: byte list) = totalSize 16"
  "token_issuedAt 16
     [0, 0, 0, 0, 0, 0, 0, 0, 0, 0, 0, 0, 0, 0, 0, 0, 0, 0, 0, 0, 101, 83, 240, 196,
      0, 0, 0, 0, 0, 0, 0, 60, 7, 7, 7, 7, 7, 7, 7, 7, 7, 7, 7, 7, 7, 7, 7, 7,
      7, 7, 7, 7, 7, 7, 7, 7, 7, 7, 7, 7, 7, 7, 7, 7, 7, 7, 7, 7, 7, 7, 7, 7,
      7, 7, 7, 7, 7, 7, 7, 7, 7, 7, 7, 7, 7, 7, 7, 7, 7, 7, 7, 7, 7, 7, 7, 7] = Some 1699999940"
  "token_validity 16
     [0, 0, 0, 0, 0, 0, 0, 0, 0, 0, 0, 0, 0, 0, 0, 0, 0, 0, 0, 0, 101, 83, 240, 196,
      0, 0, 0, 0, 0, 0, 0, 60, 7, 7, 7, 7, 7, 7, 7, 7, 7, 7, 7, 7, 7, 7, 7, 7,
      7, 7, 7, 7, 7, 7, 7, 7, 7, 7, 7, 7, 7, 7, 7, 7, 7, 7, 7, 7, 7, 7, 7, 7,
      7, 7, 7, 7, 7, 7, 7, 7, 7, 7, 7, 7, 7, 7, 7, 7, 7, 7, 7, 7, 7, 7, 7, 7] = Some 60"
  by (simp_all add: totalSize_def timestampSize_def validitySize_def signatureSize_def
      token_issuedAt_def token_validity_def BigEndian_Uint64_def slice_def)

lemma token_one_second_late_decodes:
  "RawURLEncoding_DecodeString
     ''AAAAAAAAAAAAAAAAAAAAAAAAAABlU_DDAAAAAAAAADwHBwcHBwcHBwcHBwcHBwcHBwcHBwcHBwcHBwcHBwcHBwcHBwcHBwcHBwcHBwcHBwcHBwcHBwcHBwcHBwcHBwcH'' =
   Some
     [0, 0, 0, 0, 0, 0, 0, 0, 0, 0, 0, 0, 0, 0, 0, 0, 0, 0, 0, 0, 101, 83, 240, 195,
      0, 0, 0, 0, 0, 0, 0, 60, 7, 7, 7, 7, 7, 7, 7, 7, 7, 7, 7, 7, 7, 7, 7, 7,
      7, 7, 7, 7, 7, 7, 7, 7, 7, 7, 7, 7, 7, 7, 7, 7, 7, 7, 7, 7, 7, 7, 7, 7,
      7, 7, 7, 7, 7, 7, 7, 7, 7, 7, 7, 7, 7, 7, 7, 7, 7, 7, 7, 7, 7, 7, 7, 7]"
  by (simp add: RawURLEncoding_DecodeString_def decodeMap_values)

lemma token_one_second_late_fields:
  "length
     ([0, 0, 0, 0, 0, 0, 0, 0, 0, 0, 0, 0, 0, 0, 0, 0, 0, 0, 0, 0, 101, 83, 240, 195,
      0, 0, 0, 0, 0, 0, 0, 60, 7, 7, 7, 7, 7, 7, 7, 7, 7, 7, 7, 7, 7, 7, 7, 7,
      7, 7, 7, 7, 7, 7, 7, 7, 7, 7, 7, 7, 7, 7, 7, 7, 7, 7, 7, 7, 7, 7, 7, 7,
      7, 7, 7, 7, 7, 7, 7, 7, 7, 7, 7, 7, 7, 7, 7, 7, 7, 7, 7, 7, 7, 7, 7, 7] :: byte list) = totalSize 16"
  "token_issuedAt 16
     [0, 0, 0, 0, 0, 0, 0, 0, 0, 0, 0, 0, 0, 0, 0, 0, 0, 0, 0, 0, 101, 83, 240, 195,
      0, 0, 0, 0, 0, 0, 0, 60, 7, 7, 7, 7, 7, 7, 7, 7, 7, 7, 7, 7, 7, 7, 7, 7,
      7, 7, 7, 7, 7, 7, 7, 7, 7, 7, 7, 7, 7, 7, 7, 7, 7, 7, 7, 7, 7, 7, 7, 7,
      7, 7, 7, 7, 7, 7, 7, 7, 7, 7, 7, 7, 7, 7, 7, 7, 7, 7, 7, 7, 7, 7, 7, 7] = Some 1699999939"
  "token_validity 16
     [0, 0, 0, 0, 0, 0, 0, 0, 0, 0, 0, 0, 0, 0, 0, 0, 0, 0, 0, 0, 101, 83, 240, 195,
      0, 0, 0, 0, 0, 0, 0, 60, 7, 7, 7, 7, 7, 7, 7, 7, 7, 7, 7, 7, 7, 7, 7, 7,
      7, 7, 7, 7, 7, 7, 7, 7, 7, 7, 7, 7, 7, 7, 7, 7, 7, 7, 7, 7, 7, 7, 7, 7,
      7, 7, 7, 7, 7, 7, 7, 7, 7, 7, 7, 7, 7, 7, 7, 7, 7, 7, 7, 7, 7, 7, 7, 7] = Some 60"
  by (simp_all add: totalSize_def timestampSize_def validitySize_def signatureSize_def
      token_issuedAt_def token_validity_def BigEndian_Uint64_def slice_def)

lemma token_from_future_decodes:
  "RawURLEncoding_DecodeString
     ''AAAAAAAAAAAAAAAAAAAAAAAAAABlU_EKAAAAAAAAADwHBwcHBwcHBwcHBwcHBwcHBwcHBwcHBwcHBwcHBwcHBwcHBwcHBwcHBwcHBwcHBwcHBwcHBwcHBwcHBwcHBwcH'' =
   Some
     [0, 0, 0, 0, 0, 0, 0, 0, 0, 0, 0, 0, 0, 0, 0, 0, 0, 0, 0, 0, 101, 83, 241, 10,
      0, 0, 0, 0, 0, 0, 0, 60, 7, 7, 7, 7, 7, 7, 7, 7, 7, 7, 7, 7, 7, 7, 7, 7,
      7, 7, 7, 7, 7, 7, 7, 7, 7, 7, 7, 7, 7, 7, 7, 7, 7, 7, 7, 7, 7, 7, 7, 7,
      7, 7, 7, 7, 7, 7, 7, 7, 7, 7, 7, 7, 7, 7, 7, 7, 7, 7, 7, 7, 7, 7, 7, 7]"
  by (simp add: RawURLEncoding_DecodeString_def decodeMap_values)

lemma token_from_future_fields:
  "length
     ([0, 0, 0, 0, 0, 0, 0, 0, 0, 0, 0, 0, 0, 0, 0, 0, 0, 0, 0, 0, 101, 83, 241, 10,
      0, 0, 0, 0, 0, 0, 0, 60, 7, 7, 7, 7, 7, 7, 7, 7, 7, 7, 7, 7, 7, 7, 7, 7,
      7, 7, 7, 7, 7, 7, 7, 7, 7, 7, 7, 7, 7, 7, 7, 7, 7, 7, 7, 7, 7, 7, 7, 7,
      7, 7, 7, 7, 7, 7, 7, 7, 7, 7, 7, 7, 7, 7, 7, 7, 7, 7, 7, 7, 7, 7, 7, 7] :: byte list) = totalSize 16"
  "token_issuedAt 16
     [0, 0, 0, 0, 0, 0, 0, 0, 0, 0, 0, 0, 0, 0, 0, 0, 0, 0, 0, 0, 101, 83, 241, 10,
      0, 0, 0, 0, 0, 0, 0, 60, 7, 7, 7, 7, 7, 7, 7, 7, 7, 7, 7, 7, 7, 7, 7, 7,
      7, 7, 7, 7, 7, 7, 7, 7, 7, 7, 7, 7, 7, 7, 7, 7, 7, 7, 7, 7, 7, 7, 7, 7,
      7, 7, 7, 7, 7, 7, 7, 7, 7, 7, 7, 7, 7, 7, 7, 7, 7, 7, 7, 7, 7, 7, 7, 7] = Some 1700000010"
  "token_validity 16
     [0, 0, 0, 0, 0, 0, 0, 0, 0, 0, 0, 0, 0, 0, 0, 0, 0, 0, 0, 0, 101, 83, 241, 10,
      0, 0, 0, 0, 0, 0, 0, 60, 7, 7, 7, 7, 7, 7, 7, 7, 7, 7, 7, 7, 7, 7, 7, 7,
      7, 7, 7, 7, 7, 7, 7, 7, 7, 7, 7, 7, 7, 7, 7, 7, 7, 7, 7, 7, 7, 7, 7, 7,
      7, 7, 7, 7, 7, 7, 7, 7, 7, 7, 7, 7, 7, 7, 7, 7, 7, 7, 7, 7, 7, 7, 7, 7] = Some 60"
  by (simp_all add: totalSize_def timestampSize_def validitySize_def signatureSize_def
      token_issuedAt_def token_validity_def BigEndian_Uint64_def slice_def)

lemma token_from_future_long_decodes:
  "RawURLEncoding_DecodeString
     ''AAAAAAAAAAAAAAAAAAAAAAAAAABlU_EKAAAAAiXBfQUHBwcHBwcHBwcHBwcHBwcHBwcHBwcHBwcHBwcHBwcHBwcHBwcHBwcHBwcHBwcHBwcHBwcHBwcHBwcHBwcHBwcH'' =
   Some
     [0, 0, 0, 0, 0, 0, 0, 0, 0, 0, 0, 0, 0, 0, 0, 0, 0, 0, 0, 0, 101, 83, 241, 10,
      0, 0, 0, 2, 37, 193, 125, 5, 7, 7, 7, 7, 7, 7, 7, 7, 7, 7, 7, 7, 7, 7, 7, 7,
      7, 7, 7, 7, 7, 7, 7, 7, 7, 7, 7, 7, 7, 7, 7, 7, 7, 7, 7, 7, 7, 7, 7, 7,
      7, 7, 7, 7, 7, 7, 7, 7, 7, 7, 7, 7, 7, 7, 7, 7, 7, 7, 7, 7, 7, 7, 7, 7]"
  by (simp add: RawURLEncoding_DecodeString_def decodeMap_values)

lemma token_from_future_long_fields:
  "length
     ([0, 0, 0, 0, 0, 0, 0, 0, 0, 0, 0, 0, 0, 0, 0, 0, 0, 0, 0, 0, 101, 83, 241, 10,
      0, 0, 0, 2, 37, 193, 125, 5, 7, 7, 7, 7, 7, 7, 7, 7, 7, 7, 7, 7, 7, 7, 7, 7,
      7, 7, 7, 7, 7, 7, 7, 7, 7, 7, 7, 7, 7, 7, 7, 7, 7, 7, 7, 7, 7, 7, 7, 7,
      7, 7, 7, 7, 7, 7, 7, 7, 7, 7, 7, 7, 7, 7, 7, 7, 7, 7, 7, 7, 7, 7, 7, 7] :: byte list) = totalSize 16"
  "token_issuedAt 16
     [0, 0, 0, 0, 0, 0, 0, 0, 0, 0, 0, 0, 0, 0, 0, 0, 0, 0, 0, 0, 101, 83, 241, 10,
      0, 0, 0, 2, 37, 193, 125, 5, 7, 7, 7, 7, 7, 7, 7, 7, 7, 7, 7, 7, 7, 7, 7, 7,
      7, 7, 7, 7, 7, 7, 7, 7, 7, 7, 7, 7, 7, 7, 7, 7, 7, 7, 7, 7, 7, 7, 7, 7,
      7, 7, 7, 7, 7, 7, 7, 7, 7, 7, 7, 7, 7, 7, 7, 7, 7, 7, 7, 7, 7, 7, 7, 7] = Some 1700000010"
  "token_validity 16
     [0, 0, 0, 0, 0, 0, 0, 0, 0, 0, 0, 0, 0, 0, 0, 0, 0, 0, 0, 0, 101, 83, 241, 10,
      0, 0, 0, 2, 37, 193, 125, 5, 7, 7, 7, 7, 7, 7, 7, 7, 7, 7, 7, 7, 7, 7, 7, 7,
      7, 7, 7, 7, 7, 7, 7, 7, 7, 7, 7, 7, 7, 7, 7, 7, 7, 7, 7, 7, 7, 7, 7, 7,
      7, 7, 7, 7, 7, 7, 7, 7, 7, 7, 7, 7, 7, 7, 7, 7, 7, 7, 7, 7, 7, 7, 7, 7] = Some 9223372037"
  by (simp_all add: totalSize_def timestampSize_def validitySize_def signatureSize_def
      token_issuedAt_def token_validity_def BigEndian_Uint64_def slice_def)

lemma token_high_bit_decodes:
  "RawURLEncoding_DecodeString
     ''AAAAAAAAAAAAAAAAAAAAAP__________AAAAAAAAADwHBwcHBwcHBwcHBwcHBwcHBwcHBwcHBwcHBwcHBwcHBwcHBwcHBwcHBwcHBwcHBwcHBwcHBwcHBwcHBwcHBwcH'' =
   Some
     [0, 0, 0, 0, 0, 0, 0, 0, 0, 0, 0, 0, 0, 0, 0, 0, 255, 255, 255, 255, 255, 255, 255, 255,
      0, 0, 0, 0, 0, 0, 0, 60, 7, 7, 7, 7, 7, 7, 7, 7, 7, 7, 7, 7, 7, 7, 7, 7,
      7, 7, 7, 7, 7, 7, 7, 7, 7, 7, 7, 7, 7, 7, 7, 7, 7, 7, 7, 7, 7, 7, 7, 7,
      7, 7, 7, 7, 7, 7, 7, 7, 7, 7, 7, 7, 7, 7, 7, 7, 7, 7, 7, 7, 7, 7, 7, 7]"
  by (simp add: RawURLEncoding_DecodeString_def decodeMap_values)

lemma token_high_bit_fields:
  "length
     ([0, 0, 0, 0, 0, 0, 0, 0, 0, 0, 0, 0, 0, 0, 0, 0, 255, 255, 255, 255, 255, 255, 255, 255,
      0, 0, 0, 0, 0, 0, 0, 60, 7, 7, 7, 7, 7, 7, 7, 7, 7, 7, 7, 7, 7, 7, 7, 7,
      7, 7, 7, 7, 7, 7, 7, 7, 7, 7, 7, 7, 7, 7, 7, 7, 7, 7, 7, 7, 7, 7, 7, 7,
      7, 7, 7, 7, 7, 7, 7, 7, 7, 7, 7, 7, 7, 7, 7, 7, 7, 7, 7, 7, 7, 7, 7, 7] :: byte list) = totalSize 16"
  "token_issuedAt 16
     [0, 0, 0, 0, 0, 0, 0, 0, 0, 0, 0, 0, 0, 0, 0, 0, 255, 255, 255, 255, 255, 255, 255, 255,
      0, 0, 0, 0, 0, 0, 0, 60, 7, 7, 7, 7, 7, 7, 7, 7, 7, 7, 7, 7, 7, 7, 7, 7,
      7, 7, 7, 7, 7, 7, 7, 7, 7, 7, 7, 7, 7, 7, 7, 7, 7, 7, 7, 7, 7, 7, 7, 7,
      7, 7, 7, 7, 7, 7, 7, 7, 7, 7, 7, 7, 7, 7, 7, 7, 7, 7, 7, 7, 7, 7, 7, 7] = Some 18446744073709551615"
  "token_validity 16
     [0, 0, 0, 0, 0, 0, 0, 0, 0, 0, 0, 0, 0, 0, 0, 0, 255, 255, 255, 255, 255, 255, 255, 255,
      0, 0, 0, 0, 0, 0, 0, 60, 7, 7, 7, 7, 7, 7, 7, 7, 7, 7, 7, 7, 7, 7, 7, 7,
      7, 7, 7, 7, 7, 7, 7, 7, 7, 7, 7, 7, 7, 7, 7, 7, 7, 7, 7, 7, 7, 7, 7, 7,
      7, 7, 7, 7, 7, 7, 7, 7, 7, 7, 7, 7, 7, 7, 7, 7, 7, 7, 7, 7, 7, 7, 7, 7] = Some 60"
  by (simp_all add: totalSize_def timestampSize_def validitySize_def signatureSize_def
      token_issuedAt_def token_validity_def BigEndian_Uint64_def slice_def)

section \<open>The validity boundary\<close>

text \<open>
  C2. For a token that decodes, has the right length and is correctly signed under a key of
  the right size, with the clock before the year 2262 (\<open>now < 2 ^ 63\<close> nanoseconds, the
  range of a \<open>Duration\<close>): when the elapsed time \<open>now - issuedAt\<close> equals the validity exactly,
  \<open>Verify\<close> succeeds, and when it is strictly greater, \<open>Verify\<close> fails with
  \<open>ErrAPIKeyExpired\<close>. Both fields are read as unsigned counts of seconds, as the spec has
  them; the elapsed time is measured in nanoseconds.
\<close>

theorem Verify_validity_boundary:
  assumes "RawURLEncoding_DecodeString apiKey = Some data"
    and "length data = totalSize n"
    and "token_issuedAt n data = Some issuedAt"
    and "token_validity n data = Some validitySeconds"
    and "length (publicKey v) = PublicKeySize"
    and "valid (publicKey v) (token_message n data) (token_signature n data)"
    and "now < 2 ^ 63"
  shows "(now - uint issuedAt * 1000000000 = uint validitySeconds * 1000000000 \<longrightarrow>
           Verify n valid now v apiKey = Return None) \<and>
         (now - uint issuedAt * 1000000000 > uint validitySeconds * 1000000000 \<longrightarrow>
           Verify n valid now v apiKey = Return (Some ErrAPIKeyExpired))"
proof -
  have fits: "uint issuedAt < 2 ^ 63 - 62135596800 \<and> uint validitySeconds \<le> 9223372036"
    if "uint validitySeconds * 1000000000 \<le> now - uint issuedAt * 1000000000"
  proof -
    from that assms(7)
    have "uint issuedAt * 1000000000 + uint validitySeconds * 1000000000 < 9223372036854775808"
      by simp
    moreover have "0 \<le> uint issuedAt" "0 \<le> uint validitySeconds" by simp_all
    ultimately have "uint issuedAt < 9223371974719179008 \<and> uint validitySeconds \<le> 9223372036"
      by arith
    then show ?thesis by simp
  qed
  have same: "expired now issuedAt validitySeconds \<longleftrightarrow>
      now - uint issuedAt * 1000000000 > uint validitySeconds * 1000000000"
    if "uint validitySeconds * 1000000000 \<le> now - uint issuedAt * 1000000000"
    using fits [OF that] by (simp add: expired_iff_unsigned expired_unsigned_def)
  have "Verify n valid now v apiKey = Return None"
    if eq: "now - uint issuedAt * 1000000000 = uint validitySeconds * 1000000000"
  proof -
    from eq same have "\<not> expired now issuedAt validitySeconds" by simp
    with assms show ?thesis by (intro Verify_live_token)
  qed
  moreover have "Verify n valid now v apiKey = Return (Some ErrAPIKeyExpired)"
    if gt: "now - uint issuedAt * 1000000000 > uint validitySeconds * 1000000000"
  proof -
    from gt same have "expired now issuedAt validitySeconds" by simp
    with assms(1-4) show ?thesis by (simp add: Verify_decoded)
  qed
  ultimately show ?thesis by blast
qed

theorem Verify_validity_boundary_witness:
  "Verify 16 accept_all 1700000000000000000 \<lparr>publicKey = replicate 32 0\<rparr>
     ''AAAAAAAAAAAAAAAAAAAAAAAAAABlU_DEAAAAAAAAADwHBwcHBwcHBwcHBwcHBwcHBwcHBwcHBwcHBwcHBwcHBwcHBwcHBwcHBwcHBwcHBwcHBwcHBwcHBwcHBwcHBwcH'' =
   Return None \<and>
   Verify 16 accept_all 1700000000000000000 \<lparr>publicKey = replicate 32 0\<rparr>
     ''AAAAAAAAAAAAAAAAAAAAAAAAAABlU_DDAAAAAAAAADwHBwcHBwcHBwcHBwcHBwcHBwcHBwcHBwcHBwcHBwcHBwcHBwcHBwcHBwcHBwcHBwcHBwcHBwcHBwcHBwcHBwcH'' =
   Return (Some ErrAPIKeyExpired)"
proof -
  have key: "length (publicKey \<lparr>publicKey = replicate 32 (0 :: byte)\<rparr>) = PublicKeySize"
    by (simp add: PublicKeySize_def)
  have sig: "accept_all (publicKey \<lparr>publicKey = replicate 32 (0 :: byte)\<rparr>) m s" for m s
    by (simp add: accept_all_def)
  have clock: "(1700000000000000000 :: int) < 2 ^ 63"
    by simp
  have "1700000000000000000 - uint (1699999940 :: 64 word) * 1000000000 =
      uint (60 :: 64 word) * 1000000000"
    by simp
  with Verify_validity_boundary
         [where valid = accept_all and v = "\<lparr>publicKey = replicate 32 0\<rparr>",
          OF token_on_boundary_decodes token_on_boundary_fields key sig clock]
  have first: "Verify 16 accept_all 1700000000000000000 \<lparr>publicKey = replicate 32 0\<rparr>
     ''AAAAAAAAAAAAAAAAAAAAAAAAAABlU_DEAAAAAAAAADwHBwcHBwcHBwcHBwcHBwcHBwcHBwcHBwcHBwcHBwcHBwcHBwcHBwcHBwcHBwcHBwcHBwcHBwcHBwcHBwcHBwcH'' =
   Return None"
    by blast
  have "1700000000000000000 - uint (1699999939 :: 64 word) * 1000000000 >
      uint (60 :: 64 word) * 1000000000"
    by simp
  with Verify_validity_boundary
         [where valid = accept_all and v = "\<lparr>publicKey = replicate 32 0\<rparr>",
          OF token_one_second_late_decodes token_one_second_late_fields key sig clock]
  have "Verify 16 accept_all 1700000000000000000 \<lparr>publicKey = replicate 32 0\<rparr>
     ''AAAAAAAAAAAAAAAAAAAAAAAAAABlU_DDAAAAAAAAADwHBwcHBwcHBwcHBwcHBwcHBwcHBwcHBwcHBwcHBwcHBwcHBwcHBwcHBwcHBwcHBwcHBwcHBwcHBwcHBwcHBwcH'' =
   Return (Some ErrAPIKeyExpired)"
    by blast
  with first show ?thesis by simp
qed

section \<open>The order of the checks\<close>

text \<open>
  C4. \<open>Verify\<close> checks in a fixed order, and each check that fails decides the result
  whatever the later checks would say: a text that does not decode (for one, a text with a
  character that is neither in the URL alphabet nor a line break, the padding character
  included) gives \<open>ErrInvalidKeyFormat\<close>; a text that decodes to another length than
  \<open>totalSize\<close> gives \<open>ErrInvalidKeyLength\<close>, for every public key and every signature
  check; an expired token of the right length gives \<open>ErrAPIKeyExpired\<close>, again for every
  public key and every signature check; and a live token that the signature check rejects
  under a key of the right size gives \<open>ErrInvalidSignature\<close>. Under a key of the right size
  \<open>Verify\<close> always returns: \<open>nil\<close> or one of the four errors.
\<close>

theorem Verify_check_order:
  "(RawURLEncoding_DecodeString apiKey = None \<longrightarrow>
      Verify n valid now v apiKey = Return (Some ErrInvalidKeyFormat)) \<and>
   ((\<exists>c\<in>set apiKey. decodeMap c = None \<and> c \<noteq> CHR 0x0A \<and> c \<noteq> CHR 0x0D) \<longrightarrow>
      Verify n valid now v apiKey = Return (Some ErrInvalidKeyFormat)) \<and>
   (RawURLEncoding_DecodeString apiKey = Some data \<and> length data \<noteq> totalSize n \<longrightarrow>
      Verify n valid now v apiKey = Return (Some ErrInvalidKeyLength)) \<and>
   (RawURLEncoding_DecodeString apiKey = Some data \<and> length data = totalSize n \<and>
    token_issuedAt n data = Some issuedAt \<and> token_validity n data = Some validitySeconds \<and>
    expired now issuedAt validitySeconds \<longrightarrow>
      Verify n valid now v apiKey = Return (Some ErrAPIKeyExpired)) \<and>
   (RawURLEncoding_DecodeString apiKey = Some data \<and> length data = totalSize n \<and>
    token_issuedAt n data = Some issuedAt \<and> token_validity n data = Some validitySeconds \<and>
    \<not> expired now issuedAt validitySeconds \<and> length (publicKey v) = PublicKeySize \<and>
    \<not> valid (publicKey v) (token_message n data) (token_signature n data) \<longrightarrow>
      Verify n valid now v apiKey = Return (Some ErrInvalidSignature)) \<and>
   (length (publicKey v) = PublicKeySize \<longrightarrow>
      (\<exists>result. Verify n valid now v apiKey = Return result))"
proof -
  have format: "Verify n valid now v apiKey = Return (Some ErrInvalidKeyFormat)"
    if "RawURLEncoding_DecodeString apiKey = None"
    using that by (simp add: Verify_def)
  have bad_char: "Verify n valid now v apiKey = Return (Some ErrInvalidKeyFormat)"
    if "\<exists>c\<in>set apiKey. decodeMap c = None \<and> c \<noteq> CHR 0x0A \<and> c \<noteq> CHR 0x0D"
  proof -
    from that have "RawURLEncoding_DecodeString apiKey = None"
      unfolding RawURLEncoding_DecodeString_def by (blast intro: RawURL_decode_invalid_char)
    then show ?thesis by (rule format)
  qed
  have len: "Verify n valid now v apiKey = Return (Some ErrInvalidKeyLength)"
    if "RawURLEncoding_DecodeString apiKey = Some data" "length data \<noteq> totalSize n"
    using that by (simp add: Verify_def)
  have late: "Verify n valid now v apiKey = Return (Some ErrAPIKeyExpired)"
    if "RawURLEncoding_DecodeString apiKey = Some data" "length data = totalSize n"
      "token_issuedAt n data = Some issuedAt" "token_validity n data = Some validitySeconds"
      "expired now issuedAt validitySeconds"
    using that by (simp add: Verify_decoded)
  have forged: "Verify n valid now v apiKey = Return (Some ErrInvalidSignature)"
    if "RawURLEncoding_DecodeString apiKey = Some data" "length data = totalSize n"
      "token_issuedAt n data = Some issuedAt" "token_validity n data = Some validitySeconds"
      "\<not> expired now issuedAt validitySeconds" "length (publicKey v) = PublicKeySize"
      "\<not> valid (publicKey v) (token_message n data) (token_signature n data)"
    using that by (simp add: Verify_decoded ed25519_Verify_def)
  have returns: "\<exists>result. Verify n valid now v apiKey = Return result"
    if key: "length (publicKey v) = PublicKeySize"
  proof (cases "RawURLEncoding_DecodeString apiKey")
    case None
    then show ?thesis by (simp add: Verify_def)
  next
    case (Some d)
    show ?thesis
    proof (cases "length d = totalSize n")
      case False
      with Some show ?thesis by (simp add: Verify_def)
    next
      case True
      from token_fields_present [OF True] obtain ts vl
        where "token_issuedAt n d = Some ts" "token_validity n d = Some vl"
        by blast
      with Some True key show ?thesis
        by (simp add: Verify_decoded ed25519_Verify_def)
    qed
  qed
  from format bad_char len late forged returns show ?thesis by blast
qed

theorem Verify_check_order_witness:
  "Verify 16 accept_all 1700000000000000000 \<lparr>publicKey = replicate 32 0\<rparr> ''AAAA=='' =
     Return (Some ErrInvalidKeyFormat) \<and>
   Verify 16 accept_all 1700000000000000000 \<lparr>publicKey = replicate 32 0\<rparr> ''AAAA'' =
     Return (Some ErrInvalidKeyLength) \<and>
   Verify 16 (\<lambda>pk message sig. False) 1700000000000000000 \<lparr>publicKey = replicate 32 0\<rparr>
     ''AAAAAAAAAAAAAAAAAAAAAAAAAABlU_DDAAAAAAAAADwHBwcHBwcHBwcHBwcHBwcHBwcHBwcHBwcHBwcHBwcHBwcHBwcHBwcHBwcHBwcHBwcHBwcHBwcHBwcHBwcHBwcH'' =
     Return (Some ErrAPIKeyExpired) \<and>
   Verify 16 (\<lambda>pk message sig. False) 1700000000000000000 \<lparr>publicKey = replicate 32 0\<rparr>
     ''AAAAAAAAAAAAAAAAAAAAAAAAAABlU_DEAAAAAAAAADwHBwcHBwcHBwcHBwcHBwcHBwcHBwcHBwcHBwcHBwcHBwcHBwcHBwcHBwcHBwcHBwcHBwcHBwcHBwcHBwcHBwcH'' =
     Return (Some ErrInvalidSignature) \<and>
   (\<exists>result. Verify 16 accept_all 1700000000000000000 \<lparr>publicKey = replicate 32 0\<rparr> ''AAAA'' =
     Return result)"
proof -
  let ?v = "\<lparr>publicKey = replicate 32 (0 :: byte)\<rparr>"
  have key: "length (publicKey ?v) = PublicKeySize"
    by (simp add: PublicKeySize_def)
  have c: "\<exists>c\<in>set ''AAAA==''. decodeMap c = None \<and> c \<noteq> CHR 0x0A \<and> c \<noteq> CHR 0x0D"
    by (simp add: decodeMap_def encodeURL_def)
  have d: "RawURLEncoding_DecodeString ''AAAA'' = Some [0, 0, 0]"
    by (simp add: RawURLEncoding_DecodeString_def decodeMap_values)
  have l: "length [0, 0, 0 :: byte] \<noteq> totalSize 16"
    by (simp add: totalSize_def)
  have e1: "expired 1700000000000000000 1699999939 60"
    by (simp add: expired_def time_Since_def time_Sub_def time_Now_def time_Unix_def
        unixToInternal_def minDuration_def maxDuration_def)
  have e2: "\<not> expired 1700000000000000000 1699999940 60"
    by (simp add: expired_def time_Since_def time_Sub_def time_Now_def time_Unix_def
        unixToInternal_def minDuration_def maxDuration_def)
  note order = Verify_check_order [where now = 1700000000000000000 and v = ?v and n = 16]
  from order [where apiKey = "''AAAA==''" and valid = accept_all] c
  have r1: "Verify 16 accept_all 1700000000000000000 ?v ''AAAA=='' =
      Return (Some ErrInvalidKeyFormat)"
    by blast
  from order [where apiKey = "''AAAA''" and valid = accept_all and data = "[0, 0, 0]"] d l
  have r2: "Verify 16 accept_all 1700000000000000000 ?v ''AAAA'' =
      Return (Some ErrInvalidKeyLength)"
    by blast
  from order [where valid = "\<lambda>pk message sig. False" and issuedAt = 1699999939
                and validitySeconds = 60]
    token_one_second_late_decodes token_one_second_late_fields e1
  have r3: "Verify 16 (\<lambda>pk message sig. False) 1700000000000000000 ?v
     ''AAAAAAAAAAAAAAAAAAAAAAAAAABlU_DDAAAAAAAAADwHBwcHBwcHBwcHBwcHBwcHBwcHBwcHBwcHBwcHBwcHBwcHBwcHBwcHBwcHBwcHBwcHBwcHBwcHBwcHBwcHBwcH'' =
     Return (Some ErrAPIKeyExpired)"
    by blast
  from order [where valid = "\<lambda>pk message sig. False" and issuedAt = 1699999940
                and validitySeconds = 60]
    token_on_boundary_decodes token_on_boundary_fields e2 key
  have r4: "Verify 16 (\<lambda>pk message sig. False) 1700000000000000000 ?v
     ''AAAAAAAAAAAAAAAAAAAAAAAAAABlU_DEAAAAAAAAADwHBwcHBwcHBwcHBwcHBwcHBwcHBwcHBwcHBwcHBwcHBwcHBwcHBwcHBwcHBwcHBwcHBwcHBwcHBwcHBwcHBwcH'' =
     Return (Some ErrInvalidSignature)"
    by blast
  from order [where apiKey = "''AAAA''" and valid = accept_all] key
  have r5: "\<exists>result. Verify 16 accept_all 1700000000000000000 ?v ''AAAA'' = Return result"
    by blast
  from r1 r2 r3 r4 r5 show ?thesis by simp
qed

section \<open>Tokens issued in the future\<close>

text \<open>
  C7, the claim as stated fails: a token issued ten seconds in the future, of the right
  length and accepted by the signature check, whose validity is 9223372037 seconds. The
  validity in nanoseconds does not fit a signed 64-bit \<open>Duration\<close>: the product wraps
  around to a negative duration below the (negative) elapsed time, and \<open>Verify\<close> answers
  \<open>ErrAPIKeyExpired\<close>.
\<close>

theorem future_token_counterexample:
  "Verify 16 accept_all 1700000000000000000 \<lparr>publicKey = replicate 32 0\<rparr>
     ''AAAAAAAAAAAAAAAAAAAAAAAAAABlU_EKAAAAAiXBfQUHBwcHBwcHBwcHBwcHBwcHBwcHBwcHBwcHBwcHBwcHBwcHBwcHBwcHBwcHBwcHBwcHBwcHBwcHBwcHBwcHBwcH'' =
     Return (Some ErrAPIKeyExpired) \<and>
   map_option length (RawURLEncoding_DecodeString
     ''AAAAAAAAAAAAAAAAAAAAAAAAAABlU_EKAAAAAiXBfQUHBwcHBwcHBwcHBwcHBwcHBwcHBwcHBwcHBwcHBwcHBwcHBwcHBwcHBwcHBwcHBwcHBwcHBwcHBwcHBwcHBwcH'') =
     Some (totalSize 16) \<and>
   Option.bind (RawURLEncoding_DecodeString
     ''AAAAAAAAAAAAAAAAAAAAAAAAAABlU_EKAAAAAiXBfQUHBwcHBwcHBwcHBwcHBwcHBwcHBwcHBwcHBwcHBwcHBwcHBwcHBwcHBwcHBwcHBwcHBwcHBwcHBwcHBwcHBwcH'')
     (token_issuedAt 16) = Some 1700000010 \<and>
   Option.bind (RawURLEncoding_DecodeString
     ''AAAAAAAAAAAAAAAAAAAAAAAAAABlU_EKAAAAAiXBfQUHBwcHBwcHBwcHBwcHBwcHBwcHBwcHBwcHBwcHBwcHBwcHBwcHBwcHBwcHBwcHBwcHBwcHBwcHBwcHBwcHBwcH'')
     (token_validity 16) = Some 9223372037 \<and>
   (1700000000000000000 :: int) < uint (1700000010 :: 64 word) * 1000000000"
proof -
  have e: "expired 1700000000000000000 1700000010 9223372037"
    by (simp add: expired_def time_Since_def time_Sub_def time_Now_def time_Unix_def
        unixToInternal_def minDuration_def maxDuration_def)
  have "Verify 16 accept_all 1700000000000000000 \<lparr>publicKey = replicate 32 0\<rparr>
     ''AAAAAAAAAAAAAAAAAAAAAAAAAABlU_EKAAAAAiXBfQUHBwcHBwcHBwcHBwcHBwcHBwcHBwcHBwcHBwcHBwcHBwcHBwcHBwcHBwcHBwcHBwcHBwcHBwcHBwcHBwcHBwcH'' =
     Return (Some ErrAPIKeyExpired)"
    using e
    by (simp add: Verify_decoded [OF token_from_future_long_decodes token_from_future_long_fields])
  then show ?thesis
    by (simp only: token_from_future_long_decodes token_from_future_long_fields
        option.map bind.bind_lunit) simp
qed

text \<open>
  C7, amended: a token issued in the future verifies when, besides being of the right
  length and correctly signed under a key of the right size, its \<open>issuedAt\<close> field is below
  \<open>2 ^ 63 - 62135596800\<close> (so that \<open>time.Unix\<close> does not wrap around) and its
  validity is at most 9223372036 seconds (so that the validity in nanoseconds fits a
  \<open>Duration\<close>).
\<close>

theorem future_token_verifies:
  assumes "RawURLEncoding_DecodeString apiKey = Some data"
    and "length data = totalSize n"
    and "token_issuedAt n data = Some issuedAt"
    and "token_validity n data = Some validitySeconds"
    and "length (publicKey v) = PublicKeySize"
    and "valid (publicKey v) (token_message n data) (token_signature n data)"
    and "now < uint issuedAt * 1000000000"
    and "uint issuedAt < 2 ^ 63 - 62135596800"
    and "uint validitySeconds \<le> 9223372036"
  shows "Verify n valid now v apiKey = Return None"
proof -
  have "0 \<le> uint validitySeconds * 1000000000" by simp
  with assms(7) have "\<not> expired_unsigned now issuedAt validitySeconds"
    unfolding expired_unsigned_def by linarith
  with assms(8,9) have "\<not> expired now issuedAt validitySeconds"
    by (simp add: expired_iff_unsigned)
  with assms(1-6) show ?thesis by (intro Verify_live_token)
qed

theorem future_token_verifies_witness:
  "Verify 16 accept_all 1700000000000000000 \<lparr>publicKey = replicate 32 0\<rparr>
     ''AAAAAAAAAAAAAAAAAAAAAAAAAABlU_EKAAAAAAAAADwHBwcHBwcHBwcHBwcHBwcHBwcHBwcHBwcHBwcHBwcHBwcHBwcHBwcHBwcHBwcHBwcHBwcHBwcHBwcHBwcHBwcH'' =
     Return None"
proof -
  have key: "length (publicKey \<lparr>publicKey = replicate 32 (0 :: byte)\<rparr>) = PublicKeySize"
    by (simp add: PublicKeySize_def)
  have sig: "accept_all (publicKey \<lparr>publicKey = replicate 32 (0 :: byte)\<rparr>) m s" for m s
    by (simp add: accept_all_def)
  have future: "(1700000000000000000 :: int) < uint (1700000010 :: 64 word) * 1000000000"
    by simp
  have r1: "uint (1700000010 :: 64 word) < 2 ^ 63 - 62135596800"
    by simp
  have r2: "uint (60 :: 64 word) \<le> 9223372036"
    by simp
  show ?thesis
    by (rule future_token_verifies
         [where valid = accept_all and v = "\<lparr>publicKey = replicate 32 0\<rparr>",
          OF token_from_future_decodes token_from_future_fields key sig future r1 r2])
qed

section \<open>Signed and unsigned reading of the fields\<close>

text \<open>
  C9, the claim as stated fails: a token whose \<open>issuedAt\<close> field has all 64 bits set. Read
  as unsigned the token is issued far in the future and is not expired; \<open>Verify\<close> converts
  the field to \<open>int64\<close>, reads the second before the epoch, and answers
  \<open>ErrAPIKeyExpired\<close>.
\<close>

theorem unsigned_expiry_counterexample:
  "Verify 16 accept_all 1700000000000000000 \<lparr>publicKey = replicate 32 0\<rparr>
     ''AAAAAAAAAAAAAAAAAAAAAP__________AAAAAAAAADwHBwcHBwcHBwcHBwcHBwcHBwcHBwcHBwcHBwcHBwcHBwcHBwcHBwcHBwcHBwcHBwcHBwcHBwcHBwcHBwcHBwcH'' =
     Return (Some ErrAPIKeyExpired) \<and>
   Option.bind (RawURLEncoding_DecodeString
     ''AAAAAAAAAAAAAAAAAAAAAP__________AAAAAAAAADwHBwcHBwcHBwcHBwcHBwcHBwcHBwcHBwcHBwcHBwcHBwcHBwcHBwcHBwcHBwcHBwcHBwcHBwcHBwcHBwcHBwcH'')
     (token_issuedAt 16) = Some 0xFFFFFFFFFFFFFFFF \<and>
   Option.bind (RawURLEncoding_DecodeString
     ''AAAAAAAAAAAAAAAAAAAAAP__________AAAAAAAAADwHBwcHBwcHBwcHBwcHBwcHBwcHBwcHBwcHBwcHBwcHBwcHBwcHBwcHBwcHBwcHBwcHBwcHBwcHBwcHBwcHBwcH'')
     (token_validity 16) = Some 60 \<and>
   \<not> expired_unsigned 1700000000000000000 0xFFFFFFFFFFFFFFFF 60"
proof -
  have e: "expired 1700000000000000000 18446744073709551615 60"
    by (simp add: expired_def time_Since_def time_Sub_def time_Now_def time_Unix_def
        unixToInternal_def minDuration_def maxDuration_def)
  have "Verify 16 accept_all 1700000000000000000 \<lparr>publicKey = replicate 32 0\<rparr>
     ''AAAAAAAAAAAAAAAAAAAAAP__________AAAAAAAAADwHBwcHBwcHBwcHBwcHBwcHBwcHBwcHBwcHBwcHBwcHBwcHBwcHBwcHBwcHBwcHBwcHBwcHBwcHBwcHBwcHBwcH'' =
     Return (Some ErrAPIKeyExpired)"
    using e
    by (simp add: Verify_decoded [OF token_high_bit_decodes token_high_bit_fields])
  moreover have "\<not> expired_unsigned 1700000000000000000 0xFFFFFFFFFFFFFFFF 60"
    by (simp add: expired_unsigned_def)
  ultimately show ?thesis
    by (simp only: token_high_bit_decodes token_high_bit_fields bind.bind_lunit) simp
qed

text \<open>
  C9, amended: the two fields are read as big-endian 64-bit values and converted to
  \<open>int64\<close>. For a decoded token of the right length whose \<open>issuedAt\<close> field is below
  \<open>2 ^ 63 - 62135596800\<close> and whose validity is at most 9223372036 seconds, \<open>Verify\<close>
  answers \<open>ErrAPIKeyExpired\<close> exactly when the elapsed time \<open>now - issuedAt\<close> is strictly
  greater than the validity, both fields read as unsigned counts of seconds: the unsigned
  value of each field is the big-endian value of its eight bytes.
\<close>

theorem expiry_follows_unsigned_reading:
  assumes "RawURLEncoding_DecodeString apiKey = Some data"
    and "length data = totalSize n"
    and "token_issuedAt n data = Some issuedAt"
    and "token_validity n data = Some validitySeconds"
    and "uint issuedAt < 2 ^ 63 - 62135596800"
    and "uint validitySeconds \<le> 9223372036"
  shows "uint issuedAt =
      uint (data ! n) * 2 ^ 56 + uint (data ! (n + 1)) * 2 ^ 48 +
      uint (data ! (n + 2)) * 2 ^ 40 + uint (data ! (n + 3)) * 2 ^ 32 +
      uint (data ! (n + 4)) * 2 ^ 24 + uint (data ! (n + 5)) * 2 ^ 16 +
      uint (data ! (n + 6)) * 2 ^ 8 + uint (data ! (n + 7)) \<and>
    uint validitySeconds =
      uint (data ! (n + 8)) * 2 ^ 56 + uint (data ! (n + 9)) * 2 ^ 48 +
      uint (data ! (n + 10)) * 2 ^ 40 + uint (data ! (n + 11)) * 2 ^ 32 +
      uint (data ! (n + 12)) * 2 ^ 24 + uint (data ! (n + 13)) * 2 ^ 16 +
      uint (data ! (n + 14)) * 2 ^ 8 + uint (data ! (n + 15)) \<and>
    (Verify n valid now v apiKey = Return (Some ErrAPIKeyExpired) \<longleftrightarrow>
       expired_unsigned now issuedAt validitySeconds)"
proof -
  have "Verify n valid now v apiKey = Return (Some ErrAPIKeyExpired) \<longleftrightarrow>
      expired now issuedAt validitySeconds"
    by (simp add: Verify_decoded [OF assms(1-4)] split: option.splits)
  with assms(5,6)
  have "Verify n valid now v apiKey = Return (Some ErrAPIKeyExpired) \<longleftrightarrow>
      expired_unsigned now issuedAt validitySeconds"
    by (simp add: expired_iff_unsigned)
  with token_issuedAt_big_endian [OF assms(2,3)] token_validity_big_endian [OF assms(2,4)]
  show ?thesis by blast
qed

theorem expiry_follows_unsigned_reading_witness:
  "(Verify 16 accept_all 1700000000000000000 \<lparr>publicKey = replicate 32 0\<rparr>
     ''AAAAAAAAAAAAAAAAAAAAAAAAAABlU_DDAAAAAAAAADwHBwcHBwcHBwcHBwcHBwcHBwcHBwcHBwcHBwcHBwcHBwcHBwcHBwcHBwcHBwcHBwcHBwcHBwcHBwcHBwcHBwcH'' =
     Return (Some ErrAPIKeyExpired)) =
   expired_unsigned 1700000000000000000 1699999939 60 \<and>
   expired_unsigned 1700000000000000000 1699999939 60"
proof -
  have r1: "uint (1699999939 :: 64 word) < 2 ^ 63 - 62135596800"
    by simp
  have r2: "uint (60 :: 64 word) \<le> 9223372036"
    by simp
  have "expired_unsigned 1700000000000000000 1699999939 60"
    by (simp add: expired_unsigned_def)
  with expiry_follows_unsigned_reading
         [where valid = accept_all and v = "\<lparr>publicKey = replicate 32 0\<rparr>"
            and now = 1700000000000000000,
          OF token_one_second_late_decodes token_one_second_late_fields r1 r2]
  show ?thesis by simp
qed

section \<open>A public key of the wrong size\<close>

text \<open>
  C10. \<open>NewVerifier\<close> succeeds on every key text that decodes, whatever the length of the
  decoded key, and every text made of characters of the URL alphabet whose length is not 1
  modulo 4 decodes. When the verifier's key is not 32 bytes long, a token that decodes, has
  the right length and is not expired makes \<open>Verify\<close> panic in the signature check:
  \<open>Verify\<close> does not return, and in particular does not return \<open>ErrInvalidSignature\<close>.
\<close>

theorem NewVerifier_unchecked_key_size:
  "(RawURLEncoding_DecodeString pk_text = Some pk \<longrightarrow>
      NewVerifier pk_text = Inr \<lparr>publicKey = pk\<rparr>) \<and>
   ((\<forall>c\<in>set pk_text. decodeMap c \<noteq> None) \<and> length pk_text mod 4 \<noteq> 1 \<longrightarrow>
      (\<exists>pk'. NewVerifier pk_text = Inr \<lparr>publicKey = pk'\<rparr>)) \<and>
   (NewVerifier pk_text = Inr v \<and> length (publicKey v) \<noteq> PublicKeySize \<and>
    RawURLEncoding_DecodeString apiKey = Some data \<and> length data = totalSize n \<and>
    token_issuedAt n data = Some issuedAt \<and> token_validity n data = Some validitySeconds \<and>
    \<not> expired now issuedAt validitySeconds \<longrightarrow>
      Verify n valid now v apiKey = Panic)"
proof -
  have ok: "NewVerifier pk_text = Inr \<lparr>publicKey = pk\<rparr>"
    if "RawURLEncoding_DecodeString pk_text = Some pk"
    using that by (simp add: NewVerifier_def)
  have wellformed: "\<exists>pk'. NewVerifier pk_text = Inr \<lparr>publicKey = pk'\<rparr>"
    if "\<forall>c\<in>set pk_text. decodeMap c \<noteq> None" "length pk_text mod 4 \<noteq> 1"
  proof -
    from that have "RawURL_decode pk_text [] \<noteq> None"
      by (intro RawURL_decode_total) simp_all
    then show ?thesis
      by (auto simp add: NewVerifier_def RawURLEncoding_DecodeString_def)
  qed
  have panic: "Verify n valid now v apiKey = Panic"
    if "length (publicKey v) \<noteq> PublicKeySize"
      "RawURLEncoding_DecodeString apiKey = Some data" "length data = totalSize n"
      "token_issuedAt n data = Some issuedAt" "token_validity n data = Some validitySeconds"
      "\<not> expired now issuedAt validitySeconds"
    using that by (simp add: Verify_decoded ed25519_Verify_def)
  from ok wellformed panic show ?thesis by blast
qed

theorem NewVerifier_unchecked_key_size_witness:
  "NewVerifier ''AAAA'' = Inr \<lparr>publicKey = [0, 0, 0]\<rparr> \<and>
   Verify 16 accept_all 1700000000000000000 \<lparr>publicKey = [0, 0, 0]\<rparr>
     ''AAAAAAAAAAAAAAAAAAAAAAAAAABlU_DEAAAAAAAAADwHBwcHBwcHBwcHBwcHBwcHBwcHBwcHBwcHBwcHBwcHBwcHBwcHBwcHBwcHBwcHBwcHBwcHBwcHBwcHBwcHBwcH'' =
     Panic"
proof -
  let ?v = "\<lparr>publicKey = [0, 0, 0 :: byte]\<rparr>"
  have d: "RawURLEncoding_DecodeString ''AAAA'' = Some [0, 0, 0]"
    by (simp add: RawURLEncoding_DecodeString_def decodeMap_values)
  have c: "(\<forall>c\<in>set ''AAAA''. decodeMap c \<noteq> None) \<and> length ''AAAA'' mod 4 \<noteq> 1"
    by (simp add: decodeMap_values)
  have k: "length (publicKey ?v) \<noteq> PublicKeySize"
    by (simp add: PublicKeySize_def)
  have e: "\<not> expired 1700000000000000000 1699999940 60"
    by (simp add: expired_def time_Since_def time_Sub_def time_Now_def time_Unix_def
        unixToInternal_def minDuration_def maxDuration_def)
  note inst = NewVerifier_unchecked_key_size
      [where pk_text = "''AAAA''" and pk = "[0, 0, 0]" and v = ?v and n = 16
         and now = 1700000000000000000 and issuedAt = 1699999940 and validitySeconds = 60
         and valid = accept_all]
  from inst d have new: "NewVerifier ''AAAA'' = Inr ?v"
    by blast
  from inst new k token_on_boundary_decodes token_on_boundary_fields e c
  have "Verify 16 accept_all 1700000000000000000 ?v
     ''AAAAAAAAAAAAAAAAAAAAAAAAAABlU_DEAAAAAAAAADwHBwcHBwcHBwcHBwcHBwcHBwcHBwcHBwcHBwcHBwcHBwcHBwcHBwcHBwcHBwcHBwcHBwcHBwcHBwcHBwcHBwcH'' =
     Panic"
    by blast
  with new show ?thesis by simp
qed

section \<open>The path gate\<close>

lemma path_allowed_iff: "path_allowed paths p \<longleftrightarrow> p \<in> set paths"
  by (induction paths) auto

lemma root_handler_gate:
  "root_handler paths w r =
     (if paths = [] \<or> Path r \<in> set paths then Proxied w
      else Replied (http_Error w ''shim: 403'' StatusForbidden))"
  by (simp add: root_handler_def path_allowed_iff)

lemma http_Error_reply:
  "\<not> wroteHeader w \<Longrightarrow>
     status (http_Error w error code) = code \<and>
     body (http_Error w error code) = body w @ error @ [CHR 0x0A]"
  by (simp add: http_Error_def Write_def WriteHeader_def Header_Set_def Header_Del_def)

lemma split_at_nonempty: "split_at sep s \<noteq> []"
  by (induction s) (auto split: list.splits)

lemma flag_paths_nonempty: "flag_paths allowedPaths \<noteq> []"
  by (simp add: flag_paths_def strings_Split_comma_def split_at_nonempty)

text \<open>
  C3. In main.go the paths come from the flag \<open>-p\<close>, whose help text promises "all if
  empty". The empty flag value splits into one empty path, not into no path: the list is
  never empty, the test \<open>len(paths) > 0\<close> always holds, and a request for \<open>/\<close> is answered
  with 403 and the body \<open>shim: 403\<close> instead of being forwarded. The variant driven by
  flags whose handler does not call \<open>cors\<close> does the same. In main.go, moreover, \<open>cors\<close> has
  already written the status 200 for an \<open>OPTIONS\<close> request when the gate denies it, so the
  denial goes out with status 200.
\<close>

theorem empty_flag_denies_paths:
  "flag_paths '''' = [''''] \<and>
   reply_of (root_handler_main (flag_paths '''') new_response
       \<lparr>Method = ''GET'', Path = ''/''\<rparr>) =
     Some (403, ''shim: 403'' @ [CHR 0x0A]) \<and>
   reply_of (root_handler (flag_paths '''') new_response
       \<lparr>Method = ''GET'', Path = ''/''\<rparr>) =
     Some (403, ''shim: 403'' @ [CHR 0x0A]) \<and>
   reply_of (root_handler_main [''/api''] new_response
       \<lparr>Method = ''OPTIONS'', Path = ''/api/x''\<rparr>) =
     Some (200, ''shim: 403'' @ [CHR 0x0A])"
  by (simp add: flag_paths_def strings_Split_comma_def reply_of_def root_handler_main_def
      root_handler_def cors_main_def http_Error_def Write_def WriteHeader_def Header_Set_def
      Header_Del_def new_response_def StatusOK_def StatusForbidden_def Let_def)

section \<open>The attestation endpoint\<close>

text \<open>
  C5. An \<open>OPTIONS\<close> request to the attestation endpoint is not cut short: \<open>cors\<close> writes the
  status 200 and returns to the handler, which goes on and serializes the document into
  the body. The reply has status 200 and the three CORS headers, and its body is the
  serialized document, not empty. This holds with \<open>cors\<close> as main.go has it and as the
  other variants have it.
\<close>

theorem options_request_gets_document:
  "status (attestation_handler cors_main marshal att new_response
       \<lparr>Method = ''OPTIONS'', Path = ''/.well-known/tinfoil-attestation''\<rparr>) = 200 \<and>
   body (attestation_handler cors_main marshal att new_response
       \<lparr>Method = ''OPTIONS'', Path = ''/.well-known/tinfoil-attestation''\<rparr>) =
     marshal att @ [CHR 0x0A] \<and>
   body (attestation_handler cors_main marshal att new_response
       \<lparr>Method = ''OPTIONS'', Path = ''/.well-known/tinfoil-attestation''\<rparr>) \<noteq> [] \<and>
   status (attestation_handler cors marshal att new_response
       \<lparr>Method = ''OPTIONS'', Path = ''/.well-known/tinfoil-attestation''\<rparr>) = 200 \<and>
   body (attestation_handler cors marshal att new_response
       \<lparr>Method = ''OPTIONS'', Path = ''/.well-known/tinfoil-attestation''\<rparr>) =
     marshal att @ [CHR 0x0A] \<and>
   body (attestation_handler cors marshal att new_response
       \<lparr>Method = ''OPTIONS'', Path = ''/.well-known/tinfoil-attestation''\<rparr>) \<noteq> []"
  by (simp add: attestation_handler_def cors_main_def cors_def json_Encode_def Write_def
      WriteHeader_def Header_Set_def Header_Del_def new_response_def StatusOK_def Let_def)

text \<open>
  C6. For a \<open>GET\<close> request the reply has status 200, each of the three CORS headers with
  the single value \<open>*\<close>, and the serialized document as its body. The handler sets
  \<open>Content-Type: application/json\<close> only after \<open>WriteHeader\<close>: the header is in the
  handler's map but not among the headers that are sent.
\<close>

theorem content_type_set_after_WriteHeader:
  "status (attestation_handler cors_main marshal att new_response
       \<lparr>Method = ''GET'', Path = ''/.well-known/tinfoil-attestation''\<rparr>) = 200 \<and>
   body (attestation_handler cors_main marshal att new_response
       \<lparr>Method = ''GET'', Path = ''/.well-known/tinfoil-attestation''\<rparr>) =
     marshal att @ [CHR 0x0A] \<and>
   sentHeader (attestation_handler cors_main marshal att new_response
       \<lparr>Method = ''GET'', Path = ''/.well-known/tinfoil-attestation''\<rparr>) =
     [''Access-Control-Allow-Origin'' \<mapsto> [''*''], ''Access-Control-Allow-Methods'' \<mapsto> [''*''],
      ''Access-Control-Allow-Headers'' \<mapsto> [''*'']] \<and>
   sentHeader (attestation_handler cors_main marshal att new_response
       \<lparr>Method = ''GET'', Path = ''/.well-known/tinfoil-attestation''\<rparr>) ''Content-Type'' =
     None \<and>
   handlerHeader (attestation_handler cors_main marshal att new_response
       \<lparr>Method = ''GET'', Path = ''/.well-known/tinfoil-attestation''\<rparr>) ''Content-Type'' =
     Some [''application/json''] \<and>
   sentHeader (attestation_handler cors marshal att new_response
       \<lparr>Method = ''GET'', Path = ''/.well-known/tinfoil-attestation''\<rparr>) =
     [''Access-Control-Allow-Origin'' \<mapsto> [''*''], ''Access-Control-Allow-Methods'' \<mapsto> [''*''],
      ''Access-Control-Allow-Headers'' \<mapsto> [''*'']] \<and>
   sentHeader (attestation_handler cors marshal att new_response
       \<lparr>Method = ''GET'', Path = ''/.well-known/tinfoil-attestation''\<rparr>) ''Content-Type'' =
     None"
  by (simp add: attestation_handler_def cors_main_def cors_def json_Encode_def Write_def
      WriteHeader_def Header_Set_def Header_Del_def new_response_def StatusOK_def Let_def)

end
